theory Spec2Isabelle
  imports Main
begin

section \<open>The OPGG.py client: cache-backed summoner resolution\<close>

text \<open>
  A shallow embedding of \<^verbatim>\<open>opgg/opgg.py\<close> (\<^verbatim>\<open>OPGG.search\<close>, \<^verbatim>\<open>OPGG.get_summoner\<close>),
  \<^verbatim>\<open>opgg/utils.py\<close> (\<^verbatim>\<open>get_page_props\<close>, \<^verbatim>\<open>get_all_seasons\<close>, \<^verbatim>\<open>get_all_champions\<close>,
  \<^verbatim>\<open>get_season_by\<close>, \<^verbatim>\<open>get_champion_by\<close>) and of the constructors of
  \<^verbatim>\<open>opgg/champion.py\<close>. Python exceptions are values of the type \<open>error\<close>; a function
  that can raise returns \<open>error + 'a\<close>. The object state of \<^verbatim>\<open>OPGG\<close>, the persistent
  store behind \<^verbatim>\<open>Cacher\<close> and the sequence of effects performed so far are threaded
  through \<^verbatim>\<open>search\<close> as one record.
\<close>

subsection \<open>Exceptions\<close>

text \<open>
  \<^verbatim>\<open>search\<close> raises bare \<^verbatim>\<open>Exception\<close> objects that differ in their message only;
  each message is a constructor of its own: \<open>NoRegionalIdentifier\<close> is
  \<^verbatim>\<open>No regional identifier was found for query\<close> (the specification's MalformedQueryError),
  \<open>MultipleSearchResults\<close> is \<^verbatim>\<open>Multiple search results were returned for\<close> (the
  specification's AmbiguousResultError) and \<open>NoSummonersFound\<close> is
  \<^verbatim>\<open>No summoner(s) matching ... were found\<close> (the specification's NoResultsError).
  The others are the built-in exceptions of the same name; \<open>SystemExit\<close> is
  \<^verbatim>\<open>sys.exit(1)\<close>, \<open>HTTPError\<close> is \<^verbatim>\<open>res.raise_for_status()\<close> and \<open>RequestFailed\<close>
  stands for any exception of the HTTP or HTML library.
\<close>

datatype error =
    NoRegionalIdentifier string
  | MultipleSearchResults string
  | NoSummonersFound "string list"
  | TypeError
  | ValueError
  | KeyError
  | IndexError
  | AttributeError
  | HTTPError
  | SystemExit
  | RequestFailed

subsection \<open>Python strings\<close>

text \<open>\<^verbatim>\<open>s.split(sep)\<close> for a one-character separator: one more part than separators.\<close>

fun split_on :: "char \<Rightarrow> string \<Rightarrow> string list" where
  "split_on c [] = [[]]"
| "split_on c (x # xs) =
     (if x = c then [] # split_on c xs
      else (case split_on c xs of
              [] \<Rightarrow> [[x]]
            | p # ps \<Rightarrow> (x # p) # ps))"

text \<open>\<^verbatim>\<open>sep.join(parts)\<close> for a one-character separator.\<close>

fun join :: "char \<Rightarrow> string list \<Rightarrow> string" where
  "join c [] = []"
| "join c [p] = p"
| "join c (p # q # ps) = p @ c # join c (q # ps)"

text \<open>
  \<^verbatim>\<open>str.isspace\<close> on the ASCII range: tab, newline, vertical tab, form feed, carriage
  return, the separators 0x1c to 0x1f and the space.
\<close>

definition py_isspace :: "char \<Rightarrow> bool" where
  "py_isspace c \<longleftrightarrow>
     (let n = of_char c :: nat in (9 \<le> n \<and> n \<le> 13) \<or> (28 \<le> n \<and> n \<le> 32))"

definition strip :: "string \<Rightarrow> string" where
  "strip s = rev (dropWhile py_isspace (rev (dropWhile py_isspace s)))"



text \<open>\<^verbatim>\<open>d.get(key, default)\<close> on a dictionary with string keys and string values.\<close>

definition dict_get :: "(string \<rightharpoonup> string) \<Rightarrow> string \<Rightarrow> string \<Rightarrow> string" where
  "dict_get d k dflt = (case d k of None \<Rightarrow> dflt | Some v \<Rightarrow> v)"

subsection \<open>The entities of champion.py and their constructors\<close>

record passive_info =
  passive_name :: "string option"
  passive_description :: "string option"
  passive_image_url :: "string option"
  passive_video_url :: "string option"

record spell =
  spell_key :: "string option"
  spell_name :: "string option"
  spell_max_rank :: "int option"

record price =
  currency :: string
  cost :: "int option"

record skin =
  skin_id :: "int option"
  skin_name :: "string option"
  centered_image :: "string option"
  skin_video_url :: "string option"
  prices :: "price list"

record champion =
  champion_id :: "int option"
  champion_key :: "string option"
  champion_name :: "string option"
  champion_image_url :: "string option"
  champion_passive :: passive_info
  spells :: "spell list"
  skins :: "skin list"

text \<open>
  A call \<^verbatim>\<open>f(k1=..., k2=...)\<close> with keyword arguments only binds when every keyword
  is a parameter of \<^verbatim>\<open>f\<close> and every parameter without a default is given;
  otherwise Python raises TypeError before the body runs.
\<close>

definition binds :: "string list \<Rightarrow> string list \<Rightarrow> string list \<Rightarrow> bool" where
  "binds required optional kwargs \<longleftrightarrow>
     list_all (\<lambda>k. k \<in> set required \<or> k \<in> set optional) kwargs \<and>
     list_all (\<lambda>p. p \<in> set kwargs) required"

definition call :: "string list \<Rightarrow> string list \<Rightarrow> string list \<Rightarrow> 'a \<Rightarrow> error + 'a" where
  "call required optional kwargs obj =
     (if binds required optional kwargs then Inr obj else Inl TypeError)"

text \<open>The parameters of the four \<^verbatim>\<open>__init__\<close> methods of champion.py, \<^verbatim>\<open>self\<close> apart.\<close>

definition Passive_params :: "string list" where
  "Passive_params = [''name'', ''description'', ''image_url'', ''video_url'']"

definition Spell_params :: "string list" where
  "Spell_params = [''key'', ''name'', ''description'', ''max_rank'', ''range_burn'',
     ''cooldown_burn'', ''cost_burn'', ''tooltip'', ''image_url'', ''video_url'']"

definition Price_params :: "string list" where
  "Price_params = [''currency'', ''cost'']"

text \<open>\<^verbatim>\<open>Skin.__init__\<close> has one parameter with a default, \<^verbatim>\<open>sales = None\<close>.\<close>

definition Skin_params :: "string list" where
  "Skin_params = [''id'', ''name'', ''centered_image'', ''skin_video_url'', ''prices'']"

definition Skin_defaults :: "string list" where
  "Skin_defaults = [''sales'']"

definition Champion_params :: "string list" where
  "Champion_params = [''id'', ''key'', ''name'', ''image_url'', ''evolve'', ''passive'',
     ''spells'', ''skins'']"

subsection \<open>The persistent store behind Cacher\<close>

text \<open>
  \<^verbatim>\<open>SeasonInfo\<close> (opgg/season.py) holds the five values \<^verbatim>\<open>get_all_seasons\<close> reads
  from a raw season with \<^verbatim>\<open>season.get(...)\<close>; \<open>None\<close> is a missing key.
\<close>

record season_info =
  season_id :: "int option"
  season_value :: "int option"
  display_value :: "string option"
  split :: "int option"
  is_preseason :: "bool option"

text \<open>
  The three namespaces of the store: summoner name to identifier, the champion catalog
  and the season catalog. An empty catalog is an absent one.
\<close>

record store =
  summoner_ids :: "string \<rightharpoonup> string"
  champion_catalog :: "champion list"
  season_catalog :: "season_info list"

text \<open>
  Modelled from the spec: \<^verbatim>\<open>Cacher.get_summoner_id\<close> of opgg/cacher.py, which is not
  among the sources (the specification's \<^verbatim>\<open>resolve_summoner_id\<close>): an exact-match
  lookup of the full name string, \<open>None\<close> on a miss.
\<close>

definition Cacher_get_summoner_id :: "store \<Rightarrow> string \<Rightarrow> string option" where
  "Cacher_get_summoner_id s n = summoner_ids s n"

text \<open>
  Modelled from the spec: \<^verbatim>\<open>Cacher.insert_summoner\<close> of opgg/cacher.py, which is not
  among the sources (the specification's \<^verbatim>\<open>record_summoner_id\<close>): an upsert; writing
  the pair a name already has changes nothing, a different identifier for a known name
  replaces the old one.
\<close>

definition Cacher_insert_summoner :: "store \<Rightarrow> string \<Rightarrow> string \<Rightarrow> store" where
  "Cacher_insert_summoner s n sid =
     (if summoner_ids s n = Some sid then s
      else s\<lparr>summoner_ids := (summoner_ids s)(n \<mapsto> sid)\<rparr>)"

text \<open>
  Modelled from the spec: \<^verbatim>\<open>Cacher.get_all_champs\<close> and \<^verbatim>\<open>Cacher.get_all_seasons\<close> of
  opgg/cacher.py, which is not among the sources (the specification's
  \<^verbatim>\<open>get_champion_catalog\<close> and \<^verbatim>\<open>get_season_catalog\<close>): the cached catalog if present
  and non-empty, else \<open>None\<close>.
\<close>

definition Cacher_get_all_champs :: "store \<Rightarrow> champion list option" where
  "Cacher_get_all_champs s =
     (if champion_catalog s = [] then None else Some (champion_catalog s))"

definition Cacher_get_all_seasons :: "store \<Rightarrow> season_info list option" where
  "Cacher_get_all_seasons s =
     (if season_catalog s = [] then None else Some (season_catalog s))"

text \<open>
  Modelled from the spec: \<^verbatim>\<open>Cacher.insert_all_champs\<close> and \<^verbatim>\<open>Cacher.insert_all_seasons\<close>
  of opgg/cacher.py, which is not among the sources (the specification's
  \<^verbatim>\<open>set_champion_catalog\<close> and \<^verbatim>\<open>set_season_catalog\<close>): a wholesale replace; empty
  input is a no-op.
\<close>

definition Cacher_insert_all_champs :: "store \<Rightarrow> champion list \<Rightarrow> store" where
  "Cacher_insert_all_champs s items =
     (if items = [] then s else s\<lparr>champion_catalog := items\<rparr>)"

definition Cacher_insert_all_seasons :: "store \<Rightarrow> season_info list \<Rightarrow> store" where
  "Cacher_insert_all_seasons s items =
     (if items = [] then s else s\<lparr>season_catalog := items\<rparr>)"

subsection \<open>Raw payloads and the remote services\<close>

text \<open>
  The raw champion payload is a sequence of dictionaries read with \<^verbatim>\<open>.get\<close>; a field
  is \<open>None\<close> when its key is missing. Values that \<^verbatim>\<open>get_all_champions\<close> only passes on
  (\<^verbatim>\<open>evolve\<close>, \<^verbatim>\<open>sales\<close>, the burn lists, tooltips and the like) are left out.
\<close>

record raw_price =
  raw_currency :: "string option"
  raw_cost :: "int option"

record raw_skin =
  raw_skin_id :: "int option"
  raw_skin_name :: "string option"
  raw_centered_image :: "string option"
  raw_skin_video_url :: "string option"
  raw_prices :: "raw_price list"
  raw_release_date :: "string option"

record raw_spell =
  raw_spell_key :: "string option"
  raw_spell_name :: "string option"
  raw_max_rank :: "int option"

record raw_champion =
  raw_id :: "int option"
  raw_key :: "string option"
  raw_name :: "string option"
  raw_image_url :: "string option"
  raw_passive :: passive_info
  raw_spells :: "raw_spell list"
  raw_skins :: "raw_skin list"

text \<open>
  The page props of the multisearch page: \<open>page_summoners\<close> is the list of candidate
  dictionaries under the key \<^verbatim>\<open>summoners\<close>; \<^verbatim>\<open>seasonsById\<close> and \<^verbatim>\<open>championsById\<close>
  are given by their values in order (a falsy season is \<open>None\<close>). A field is \<open>None\<close>
  when the key is missing; \<open>other_keys\<close> says whether the dictionary has further keys,
  so that \<^verbatim>\<open>{}\<close> is the record with three missing keys and no other key.
\<close>

record page_props =
  page_summoners :: "(string \<rightharpoonup> string) list option"
  seasonsById :: "season_info option list option"
  championsById :: "raw_champion list option"
  other_keys :: bool

definition empty_page_props :: page_props where
  "empty_page_props =
     \<lparr>page_summoners = None, seasonsById = None, championsById = None, other_keys = False\<rparr>"

definition truthy_page_props :: "page_props \<Rightarrow> bool" where
  "truthy_page_props pp \<longleftrightarrow>
     page_summoners pp \<noteq> None \<or> seasonsById pp \<noteq> None \<or> championsById pp \<noteq> None \<or>
     other_keys pp"

text \<open>
  \<^verbatim>\<open>Summoner\<close> (opgg/summoner.py) by the two attributes \<^verbatim>\<open>search\<close> reads and
  passes to \<^verbatim>\<open>insert_summoner\<close>, both taken to be strings: the summary has a name and
  an identifier for the summoner it describes.
\<close>

record summoner =
  name :: string
  summoner_id :: string

text \<open>
  What the summary endpoint (and, inside \<^verbatim>\<open>get_summoner\<close>, the games endpoint) makes of
  one call of \<^verbatim>\<open>get_summoner\<close>: the request fails, the response is not ok, a body does
  not decode, the \<^verbatim>\<open>data\<close> of the summary is falsy, or a \<^verbatim>\<open>Summoner\<close> is built.
\<close>

datatype summary_reply = Unreachable | NotOk | Undecodable | NoData | Data summoner

type_synonym region = string

type_synonym datetime = nat

text \<open>
  What \<^verbatim>\<open>get_page_props\<close> meets when it requests the multisearch page and reads
  \<^verbatim>\<open>json.loads(soup.select_one("#__NEXT_DATA__").text)["props"]["pageProps"]\<close>: the
  request fails, the page has no such element, its text is not JSON, the JSON has no
  page props, or the page props are there.
\<close>

datatype page_reply = PageUnreachable | NoNextData | NotJson | NoPageProps | PageProps page_props

text \<open>
  The same for the champions endpoint, read as \<^verbatim>\<open>json.loads(res.text)["data"]\<close>.
\<close>

datatype champions_reply =
  ChampionsUnreachable | ChampionsNotJson | ChampionsNoData | ChampionsData "raw_champion list"

text \<open>
  The parts of the world the code calls and the sources do not define: the multisearch
  page (by region and the text after \<^verbatim>\<open>summoners=\<close>), the summary endpoint (by region
  and summoner id, \<open>None\<close> for Python's \<^verbatim>\<open>None\<close>), the champions endpoint,
  \<^verbatim>\<open>datetime.fromisoformat\<close> and \<^verbatim>\<open>int\<close> on a string (\<open>None\<close> where they raise
  ValueError) and the value of \<^verbatim>\<open>Region.NA\<close> (opgg/params.py).
\<close>

record env =
  multisearch :: "region \<Rightarrow> string \<Rightarrow> page_reply"
  summary :: "region \<Rightarrow> string option \<Rightarrow> summary_reply"
  meta_champions :: champions_reply
  fromisoformat :: "string \<Rightarrow> datetime option"
  int_of_str :: "string \<Rightarrow> int option"
  Region_NA :: region

subsection \<open>State and effects\<close>

text \<open>An argument of type \<^verbatim>\<open>str | list[str]\<close>.\<close>

datatype names_arg = Str string | Lst "string list"

text \<open>
  One event per access to the persistent store and per network request, in the order
  they happen.
\<close>

datatype event =
    GetSummonerId string
  | GetAllSeasons
  | GetAllChamps
  | InsertAllSeasons "season_info list"
  | InsertAllChamps "champion list"
  | InsertSummoner string string
  | PagePropsRequest names_arg region
  | ChampionsRequest
  | SummaryRequest region "string option"

fun is_store_access :: "event \<Rightarrow> bool" where
  "is_store_access (PagePropsRequest _ _) = False"
| "is_store_access ChampionsRequest = False"
| "is_store_access (SummaryRequest _ _) = False"
| "is_store_access _ = True"

fun is_store_write :: "event \<Rightarrow> bool" where
  "is_store_write (InsertAllSeasons _) = True"
| "is_store_write (InsertAllChamps _) = True"
| "is_store_write (InsertSummoner _ _) = True"
| "is_store_write _ = False"

fun is_network_access :: "event \<Rightarrow> bool" where
  "is_network_access (PagePropsRequest _ _) = True"
| "is_network_access ChampionsRequest = True"
| "is_network_access (SummaryRequest _ _) = True"
| "is_network_access _ = False"

text \<open>
  The attributes of the \<^verbatim>\<open>OPGG\<close> object that \<^verbatim>\<open>search\<close> reads and writes, the store
  its \<^verbatim>\<open>Cacher\<close> works on, and the events so far. An exception leaves the state as it
  was when it was raised.
\<close>

record state =
  self_summoner_id :: "string option"
  self_region :: region
  self_all_seasons :: "season_info list option"
  self_all_champions :: "champion list option"
  cache :: store
  trace :: "event list"

definition emit :: "event \<Rightarrow> state \<Rightarrow> state" where
  "emit e st = st\<lparr>trace := trace st @ [e]\<rparr>"

text \<open>A result of type \<^verbatim>\<open>T | list[T]\<close>.\<close>

datatype 'a one_or_many = One 'a | Many "'a list"

fun items :: "'a one_or_many \<Rightarrow> 'a list" where
  "items (One x) = [x]"
| "items (Many xs) = xs"

text \<open>A loop whose body can raise: the first exception ends it.\<close>

fun for_each :: "('a \<Rightarrow> error + 'b) \<Rightarrow> 'a list \<Rightarrow> error + 'b list" where
  "for_each f [] = Inr []"
| "for_each f (x # xs) =
     (case f x of
        Inl e \<Rightarrow> Inl e
      | Inr y \<Rightarrow> (case for_each f xs of Inl e \<Rightarrow> Inl e | Inr ys \<Rightarrow> Inr (y # ys)))"

subsection \<open>utils.py: page props and catalogs\<close>

text \<open>
  \<^verbatim>\<open>get_page_props(summoner_names, region)\<close>: a non-empty list is joined with commas,
  an empty list is formatted into the URL as it is, a string is used as given. A body
  that does not decode gives \<^verbatim>\<open>{}\<close>; any other exception goes to the caller.
\<close>

definition query_text :: "names_arg \<Rightarrow> string" where
  "query_text a =
     (case a of
        Str s \<Rightarrow> s
      | Lst ns \<Rightarrow> if ns \<noteq> [] then join (CHR '','') ns else ''[]'')"

definition get_page_props ::
    "env \<Rightarrow> names_arg \<Rightarrow> region \<Rightarrow> state \<Rightarrow> (error + page_props) \<times> state" where
  "get_page_props env summoner_names region st =
     (let st' = emit (PagePropsRequest summoner_names region) st in
      case multisearch env region (query_text summoner_names) of
        PageUnreachable \<Rightarrow> (Inl RequestFailed, st')
      | NoNextData \<Rightarrow> (Inl AttributeError, st')
      | NotJson \<Rightarrow> (Inr empty_page_props, st')
      | NoPageProps \<Rightarrow> (Inl KeyError, st')
      | PageProps pp \<Rightarrow> (Inr pp, st'))"

text \<open>
  \<^verbatim>\<open>get_all_seasons(page_props=None)\<close>: the cached seasons when there are any; else one
  \<^verbatim>\<open>SeasonInfo\<close> per truthy value of \<^verbatim>\<open>page_props["seasonsById"]\<close>, the page props
  being fetched with the default arguments when none were passed.
\<close>

definition default_summoner_names :: names_arg where
  "default_summoner_names = Str ''ColbyFaulkn1''"

definition seasons_of :: "page_props \<Rightarrow> error + season_info list" where
  "seasons_of pp =
     (case seasonsById pp of
        None \<Rightarrow> Inl KeyError
      | Some vs \<Rightarrow> Inr (List.map_filter (\<lambda>v. v) vs))"

definition get_all_seasons ::
    "env \<Rightarrow> page_props option \<Rightarrow> state \<Rightarrow> (error + season_info list) \<times> state" where
  "get_all_seasons env page_props st =
     (let st1 = emit GetAllSeasons st in
      case Cacher_get_all_seasons (cache st1) of
        Some (c # cs) \<Rightarrow> (Inr (c # cs), st1)
      | _ \<Rightarrow>
          (case page_props of
             Some pp \<Rightarrow> (seasons_of pp, st1)
           | None \<Rightarrow>
               (case get_page_props env default_summoner_names (Region_NA env) st1 of
                  (Inl e, st2) \<Rightarrow> (Inl e, st2)
                | (Inr pp, st2) \<Rightarrow> (seasons_of pp, st2))))"

text \<open>\<^verbatim>\<open>"RP" in s\<close>: the substring test.\<close>

fun contains :: "string \<Rightarrow> string \<Rightarrow> bool" where
  "contains sub [] = (sub = [])"
| "contains sub (x # xs) = (take (length sub) (x # xs) = sub \<or> contains sub xs)"

text \<open>
  The body of the loop of \<^verbatim>\<open>get_all_champions\<close>, constructor call by constructor call,
  with the keywords each call passes. The arguments of a call are evaluated before the
  call binds them, so a release date that does not parse raises ValueError before
  \<^verbatim>\<open>Skin(...)\<close> is entered.
\<close>

definition build_price :: "raw_price \<Rightarrow> error + price" where
  "build_price p =
     call Price_params [] [''currency'', ''cost'']
       \<lparr>currency = (case raw_currency p of
                      None \<Rightarrow> ''BE''
                    | Some c \<Rightarrow> if contains ''RP'' c then c else ''BE''),
        cost = raw_cost p\<rparr>"

definition release_date_of :: "env \<Rightarrow> raw_skin \<Rightarrow> error + datetime option" where
  "release_date_of env s =
     (case raw_release_date s of
        None \<Rightarrow> Inr None
      | Some d \<Rightarrow>
          if d = [] then Inr None
          else (case fromisoformat env d of
                  None \<Rightarrow> Inl ValueError
                | Some t \<Rightarrow> Inr (Some t)))"

definition build_skin :: "env \<Rightarrow> raw_skin \<Rightarrow> error + skin" where
  "build_skin env s =
     (case for_each build_price (raw_prices s) of
        Inl e \<Rightarrow> Inl e
      | Inr ps \<Rightarrow>
          (case release_date_of env s of
             Inl e \<Rightarrow> Inl e
           | Inr d \<Rightarrow>
               call Skin_params Skin_defaults
                 [''id'', ''champion_id'', ''name'', ''centered_image'', ''skin_video_url'',
                  ''prices'', ''release_date'', ''sales'']
                 \<lparr>skin_id = raw_skin_id s, skin_name = raw_skin_name s,
                  centered_image = raw_centered_image s,
                  skin_video_url = raw_skin_video_url s, prices = ps\<rparr>))"

definition build_spell :: "raw_spell \<Rightarrow> error + spell" where
  "build_spell s =
     call Spell_params []
       [''key'', ''name'', ''description'', ''max_rank'', ''range_burn'', ''cooldown_burn'',
        ''cooldown_burn_float'', ''cost_burn'', ''tooltip'', ''image_url'', ''video_url'']
       \<lparr>spell_key = raw_spell_key s, spell_name = raw_spell_name s,
        spell_max_rank = raw_max_rank s\<rparr>"

definition build_passive :: "passive_info \<Rightarrow> error + passive_info" where
  "build_passive p =
     call Passive_params [] [''name'', ''description'', ''image_url'', ''video_url''] p"

definition build_champion :: "env \<Rightarrow> raw_champion \<Rightarrow> error + champion" where
  "build_champion env c =
     (case for_each (build_skin env) (raw_skins c) of
        Inl e \<Rightarrow> Inl e
      | Inr sk \<Rightarrow>
          (case for_each build_spell (raw_spells c) of
             Inl e \<Rightarrow> Inl e
           | Inr sp \<Rightarrow>
               (case build_passive (raw_passive c) of
                  Inl e \<Rightarrow> Inl e
                | Inr pa \<Rightarrow>
                    call Champion_params []
                      [''id'', ''key'', ''name'', ''image_url'', ''evolve'', ''partype'',
                       ''passive'', ''spells'', ''skins'']
                      \<lparr>champion_id = raw_id c, champion_key = raw_key c,
                       champion_name = raw_name c, champion_image_url = raw_image_url c,
                       champion_passive = pa, spells = sp, skins = sk\<rparr>)))"

text \<open>
  \<^verbatim>\<open>get_all_champions(page_props=None)\<close>: with falsy page props the cached champions
  when there are any, else the \<^verbatim>\<open>data\<close> of the champions endpoint (nothing when the
  body does not decode); with truthy page props the values of
  \<^verbatim>\<open>page_props["championsById"]\<close>. Then the loop over the raw champions.
\<close>

definition raw_champs_data ::
    "env \<Rightarrow> page_props option \<Rightarrow> state \<Rightarrow> (error + (champion list + raw_champion list)) \<times> state"
  where
  "raw_champs_data env page_props st =
     (case (case page_props of None \<Rightarrow> None
            | Some pp \<Rightarrow> if truthy_page_props pp then Some pp else None) of
        None \<Rightarrow>
          (let st1 = emit GetAllChamps st in
           case Cacher_get_all_champs (cache st1) of
             Some (c # cs) \<Rightarrow> (Inr (Inl (c # cs)), st1)
           | _ \<Rightarrow>
               (let st2 = emit ChampionsRequest st1 in
                case meta_champions env of
                  ChampionsUnreachable \<Rightarrow> (Inl RequestFailed, st2)
                | ChampionsNotJson \<Rightarrow> (Inr (Inr []), st2)
                | ChampionsNoData \<Rightarrow> (Inl KeyError, st2)
                | ChampionsData raw \<Rightarrow> (Inr (Inr raw), st2)))
      | Some pp \<Rightarrow>
          (case championsById pp of
             None \<Rightarrow> (Inl KeyError, st)
           | Some raw \<Rightarrow> (Inr (Inr raw), st)))"

definition get_all_champions ::
    "env \<Rightarrow> page_props option \<Rightarrow> state \<Rightarrow> (error + champion list) \<times> state" where
  "get_all_champions env page_props st =
     (case raw_champs_data env page_props st of
        (Inl e, st') \<Rightarrow> (Inl e, st')
      | (Inr (Inl cached_champions), st') \<Rightarrow> (Inr cached_champions, st')
      | (Inr (Inr raw), st') \<Rightarrow> (for_each (build_champion env) raw, st'))"

subsection \<open>utils.py: get_season_by and get_champion_by\<close>















subsection \<open>opgg.py: get_summoner and search\<close>

text \<open>
  \<^verbatim>\<open>OPGG.get_summoner()\<close> requests the summary of \<^verbatim>\<open>self.summoner_id\<close> in
  \<^verbatim>\<open>self.region\<close> (both setters refresh the URL). A response that is not ok raises
  HTTPError, a body that does not decode ends in \<^verbatim>\<open>sys.exit(1)\<close>, falsy data is
  returned as it is (\<open>None\<close> here: not a \<^verbatim>\<open>Summoner\<close>), and otherwise the
  \<^verbatim>\<open>Summoner\<close> is returned.
\<close>

definition get_summoner :: "env \<Rightarrow> state \<Rightarrow> (error + summoner option) \<times> state" where
  "get_summoner env st =
     (let st' = emit (SummaryRequest (self_region st) (self_summoner_id st)) st in
      case summary env (self_region st) (self_summoner_id st) of
        Unreachable \<Rightarrow> (Inl RequestFailed, st')
      | NotOk \<Rightarrow> (Inl HTTPError, st')
      | Undecodable \<Rightarrow> (Inl SystemExit, st')
      | NoData \<Rightarrow> (Inr None, st')
      | Data s \<Rightarrow> (Inr (Some s), st'))"

text \<open>
  The first loop of \<^verbatim>\<open>search\<close> (lines 436 to 447): a name without \<^verbatim>\<open>#\<close> raises; the
  others are looked up in the cache, a truthy identifier going to
  \<^verbatim>\<open>cached_summoner_ids\<close> and the name to \<^verbatim>\<open>uncached_summoners\<close> otherwise.
\<close>

fun partition_names ::
    "string list \<Rightarrow> string list \<Rightarrow> string list \<Rightarrow> state \<Rightarrow>
     (error + string list \<times> string list) \<times> state" where
  "partition_names [] cached_summoner_ids uncached_summoners st =
     (Inr (cached_summoner_ids, uncached_summoners), st)"
| "partition_names (n # ns) cached_summoner_ids uncached_summoners st =
     (if CHR ''#'' \<notin> set n then (Inl (NoRegionalIdentifier n), st)
      else
        (let st' = emit (GetSummonerId n) st in
         case Cacher_get_summoner_id (cache st') n of
           None \<Rightarrow> partition_names ns cached_summoner_ids (uncached_summoners @ [n]) st'
         | Some cached_id \<Rightarrow>
             if cached_id \<noteq> []
             then partition_names ns (cached_summoner_ids @ [cached_id]) uncached_summoners st'
             else partition_names ns cached_summoner_ids (uncached_summoners @ [n]) st'))"

text \<open>
  Lines 464 to 479. Both catalogs are read from the cache first; then each catalog is
  taken from the cache when it has one, and is built from the page props and inserted
  into the cache otherwise.
\<close>

definition read_catalogs ::
    "state \<Rightarrow> (season_info list option \<times> champion list option) \<times> state" where
  "read_catalogs st =
     (let st1 = emit GetAllSeasons st;
          cached_seasons = Cacher_get_all_seasons (cache st1);
          st2 = emit GetAllChamps st1;
          cached_champions = Cacher_get_all_champs (cache st2)
      in ((cached_seasons, cached_champions), st2))"

definition load_seasons ::
    "env \<Rightarrow> page_props \<Rightarrow> season_info list option \<Rightarrow> state \<Rightarrow> (error + unit) \<times> state" where
  "load_seasons env page_props cached_seasons st =
     (case cached_seasons of
        Some (c # cs) \<Rightarrow> (Inr (), st\<lparr>self_all_seasons := Some (c # cs)\<rparr>)
      | _ \<Rightarrow>
          (case get_all_seasons env (Some page_props) st of
             (Inl e, st') \<Rightarrow> (Inl e, st')
           | (Inr all_seasons, st') \<Rightarrow>
               (Inr (),
                emit (InsertAllSeasons all_seasons)
                  (st'\<lparr>self_all_seasons := Some all_seasons,
                       cache := Cacher_insert_all_seasons (cache st') all_seasons\<rparr>))))"

definition load_champions ::
    "env \<Rightarrow> page_props \<Rightarrow> champion list option \<Rightarrow> state \<Rightarrow> (error + unit) \<times> state" where
  "load_champions env page_props cached_champions st =
     (case cached_champions of
        Some (c # cs) \<Rightarrow> (Inr (), st\<lparr>self_all_champions := Some (c # cs)\<rparr>)
      | _ \<Rightarrow>
          (case get_all_champions env (Some page_props) st of
             (Inl e, st') \<Rightarrow> (Inl e, st')
           | (Inr all_champions, st') \<Rightarrow>
               (Inr (),
                emit (InsertAllChamps all_champions)
                  (st'\<lparr>self_all_champions := Some all_champions,
                       cache := Cacher_insert_all_champs (cache st') all_champions\<rparr>))))"

text \<open>\<^verbatim>\<open>page_props.get("summoners", [])\<close>.\<close>

definition candidates :: "page_props \<Rightarrow> (string \<rightharpoonup> string) list" where
  "candidates pp = (case page_summoners pp of None \<Rightarrow> [] | Some cs \<Rightarrow> cs)"

text \<open>
  Lines 492 to 508, the choice of \<^verbatim>\<open>self.summoner_id\<close> for one name: with several
  candidates and a \<^verbatim>\<open>#\<close> in the name, the first candidate whose \<^verbatim>\<open>game_name\<close> and
  \<^verbatim>\<open>tagline\<close> equal the stripped halves of the name (unpacking the split raises
  ValueError unless there are exactly two halves); with several candidates and no
  \<^verbatim>\<open>#\<close>, an exception; with one candidate, that candidate. In every other case, and
  when no candidate matches, \<^verbatim>\<open>self.summoner_id\<close> stays what it was.
\<close>

definition matches :: "string \<Rightarrow> string \<Rightarrow> (string \<rightharpoonup> string) \<Rightarrow> bool" where
  "matches only_summoner_name only_region c \<longleftrightarrow>
     strip only_summoner_name = dict_get c ''game_name'' [] \<and>
     strip only_region = dict_get c ''tagline'' []"

definition select_summoner_id ::
    "page_props \<Rightarrow> string \<Rightarrow> string option \<Rightarrow> error + string option" where
  "select_summoner_id page_props n current =
     (if length (candidates page_props) > 1 \<and> CHR ''#'' \<in> set n then
        (case split_on (CHR ''#'') n of
           [only_summoner_name, only_region] \<Rightarrow>
             (case find (matches only_summoner_name only_region) (candidates page_props) of
                None \<Rightarrow> Inr current
              | Some c \<Rightarrow> Inr (Some (dict_get c ''summoner_id'' [])))
         | _ \<Rightarrow> Inl ValueError)
      else if length (candidates page_props) > 1 \<and> CHR ''#'' \<notin> set n then
        Inl (MultipleSearchResults n)
      else if length (candidates page_props) = 1 then
        (case (candidates page_props ! 0) ''summoner_id'' of
           None \<Rightarrow> Inl KeyError
         | Some sid \<Rightarrow> Inr (Some sid))
      else Inr current)"

text \<open>
  The second loop (lines 490 to 513), over all the names of the query: choose the
  identifier, build the summoner, append it and insert it into the cache under the
  name the summary gave. Reading \<^verbatim>\<open>summoner.name\<close> of falsy data raises AttributeError.
\<close>

fun resolve_names ::
    "env \<Rightarrow> page_props \<Rightarrow> string list \<Rightarrow> summoner list \<Rightarrow> state \<Rightarrow>
     (error + summoner list) \<times> state" where
  "resolve_names env page_props [] summoners st = (Inr summoners, st)"
| "resolve_names env page_props (n # ns) summoners st =
     (case select_summoner_id page_props n (self_summoner_id st) of
        Inl e \<Rightarrow> (Inl e, st)
      | Inr sid \<Rightarrow>
          (case get_summoner env (st\<lparr>self_summoner_id := sid\<rparr>) of
             (Inl e, st') \<Rightarrow> (Inl e, st')
           | (Inr None, st') \<Rightarrow> (Inl AttributeError, st')
           | (Inr (Some s), st') \<Rightarrow>
               resolve_names env page_props ns (summoners @ [s])
                 (emit (InsertSummoner (name s) (summoner_id s))
                    (st'\<lparr>cache :=
                           Cacher_insert_summoner (cache st') (name s) (summoner_id s)\<rparr>))))"

text \<open>The third loop (lines 516 to 520): the cached identifiers go straight to the API.\<close>

fun resolve_cached ::
    "env \<Rightarrow> string list \<Rightarrow> summoner list \<Rightarrow> state \<Rightarrow> (error + summoner list) \<times> state" where
  "resolve_cached env [] summoners st = (Inr summoners, st)"
| "resolve_cached env (cached_id # ids) summoners st =
     (case get_summoner env (st\<lparr>self_summoner_id := Some cached_id\<rparr>) of
        (Inl e, st') \<Rightarrow> (Inl e, st')
      | (Inr None, st') \<Rightarrow> (Inl AttributeError, st')
      | (Inr (Some s), st') \<Rightarrow> resolve_cached env ids (summoners @ [s]) st')"

text \<open>\<^verbatim>\<open>summoner_names\<close> as a list: a string is split at its commas, if it has any.\<close>

definition names_of :: "names_arg \<Rightarrow> string list" where
  "names_of a =
     (case a of
        Str s \<Rightarrow> if CHR '','' \<in> set s then split_on (CHR '','') s else [s]
      | Lst ns \<Rightarrow> ns)"

text \<open>Lines 524 to 527: no summoner at all is an exception, one is returned bare.\<close>

definition search_result :: "string list \<Rightarrow> summoner list \<Rightarrow> error + summoner one_or_many" where
  "search_result summoner_names summoners =
     (case summoners of
        [] \<Rightarrow> Inl (NoSummonersFound summoner_names)
      | [s] \<Rightarrow> Inr (One s)
      | _ \<Rightarrow> Inr (Many summoners))"

definition search ::
    "env \<Rightarrow> names_arg \<Rightarrow> region \<Rightarrow> state \<Rightarrow> (error + summoner one_or_many) \<times> state" where
  "search env summoner_names region st =
     (case partition_names (names_of summoner_names) [] [] st of
        (Inl e, st1) \<Rightarrow> (Inl e, st1)
      | (Inr (cached_summoner_ids, uncached_summoners), st1) \<Rightarrow>
     (case get_page_props env (Lst uncached_summoners) region st1 of
        (Inl e, st2) \<Rightarrow> (Inl e, st2)
      | (Inr page_props, st2) \<Rightarrow>
     (case read_catalogs st2 of ((cached_seasons, cached_champions), st2') \<Rightarrow>
     (case load_seasons env page_props cached_seasons st2' of
        (Inl e, st3) \<Rightarrow> (Inl e, st3)
      | (Inr _, st3) \<Rightarrow>
     (case load_champions env page_props cached_champions st3 of
        (Inl e, st4) \<Rightarrow> (Inl e, st4)
      | (Inr _, st4) \<Rightarrow>
     (case resolve_names env page_props (names_of summoner_names) []
             (st4\<lparr>self_region := region\<rparr>) of
        (Inl e, st5) \<Rightarrow> (Inl e, st5)
      | (Inr summoners, st5) \<Rightarrow>
     (case resolve_cached env cached_summoner_ids summoners st5 of
        (Inl e, st6) \<Rightarrow> (Inl e, st6)
      | (Inr summoners', st6) \<Rightarrow>
          (search_result (names_of summoner_names) summoners', st6))))))))"

subsection \<open>Notions used in the properties\<close>

text \<open>
  A name is a cache hit when \<^verbatim>\<open>if cached_id:\<close> holds for what the cache returns: an
  identifier that is not the empty string.
\<close>

definition cache_hit :: "store \<Rightarrow> string \<Rightarrow> bool" where
  "cache_hit s n =
     (case Cacher_get_summoner_id s n of None \<Rightarrow> False | Some cached_id \<Rightarrow> cached_id \<noteq> [])"

definition hit_ids :: "store \<Rightarrow> string list \<Rightarrow> string list" where
  "hit_ids s ns =
     List.map_filter
       (\<lambda>n. case Cacher_get_summoner_id s n of
               None \<Rightarrow> None
             | Some cached_id \<Rightarrow> if cached_id \<noteq> [] then Some cached_id else None) ns"

definition miss_names :: "store \<Rightarrow> string list \<Rightarrow> string list" where
  "miss_names s ns = filter (\<lambda>n. \<not> cache_hit s n) ns"



text \<open>
  The events of a run: what the trace has gained. \<open>only_adds P st st'\<close> says that
  \<open>st'\<close> has the trace of \<open>st\<close> followed by events that all satisfy \<open>P\<close>.
\<close>

definition new_events :: "state \<Rightarrow> state \<Rightarrow> event list" where
  "new_events st st' = drop (length (trace st)) (trace st')"

definition only_adds :: "(event \<Rightarrow> bool) \<Rightarrow> state \<Rightarrow> state \<Rightarrow> bool" where
  "only_adds P st st' \<longleftrightarrow>
     take (length (trace st)) (trace st') = trace st \<and> list_all P (new_events st st')"




text \<open>
  \<open>keeps_catalogs st st'\<close>: a catalog that is populated in the store of \<open>st\<close> is the
  same in the store of \<open>st'\<close>.
\<close>

definition keeps_catalogs :: "state \<Rightarrow> state \<Rightarrow> bool" where
  "keeps_catalogs st st' \<longleftrightarrow>
     (if season_catalog (cache st) = [] then True
      else season_catalog (cache st') = season_catalog (cache st)) \<and>
     (if champion_catalog (cache st) = [] then True
      else champion_catalog (cache st') = champion_catalog (cache st))"

subsection \<open>A concrete world\<close>

text \<open>
  Two cached champions, one cached season, and a remote side that knows the summoners
  \<^verbatim>\<open>a#1\<close>, \<^verbatim>\<open>b#2\<close> and \<^verbatim>\<open>c#3\<close>, answers the queries \<^verbatim>\<open>abc#EUW\<close> and \<^verbatim>\<open>abc\<close>
  with the two candidates named \<^verbatim>\<open>abc\<close>, and has no candidate for any other query.
\<close>

definition no_passive :: passive_info where
  "no_passive = \<lparr>passive_name = None, passive_description = None,
     passive_image_url = None, passive_video_url = None\<rparr>"

definition aatrox :: champion where
  "aatrox = \<lparr>champion_id = Some 266, champion_key = Some ''Aatrox'',
     champion_name = Some ''Aatrox'', champion_image_url = None,
     champion_passive = no_passive, spells = [],
     skins = [\<lparr>skin_id = Some 266000, skin_name = Some ''default'', centered_image = None,
       skin_video_url = None, prices = [\<lparr>currency = ''BE'', cost = Some 4800\<rparr>]\<rparr>]\<rparr>"

definition ahri :: champion where
  "ahri = aatrox\<lparr>champion_id := Some 103, champion_key := Some ''Ahri'',
     champion_name := Some ''Ahri''\<rparr>"

definition season_13 :: season_info where
  "season_13 = \<lparr>season_id = Some 23, season_value = Some 2023,
     display_value = Some ''S2023 S1'', split = Some 1, is_preseason = Some False\<rparr>"

definition raw_aatrox :: raw_champion where
  "raw_aatrox = \<lparr>raw_id = Some 266, raw_key = Some ''Aatrox'', raw_name = Some ''Aatrox'',
     raw_image_url = None, raw_passive = no_passive, raw_spells = [],
     raw_skins = [\<lparr>raw_skin_id = Some 266000, raw_skin_name = Some ''default'',
       raw_centered_image = None, raw_skin_video_url = None, raw_prices = [],
       raw_release_date = Some ''2013-06-13''\<rparr>]\<rparr>"

text \<open>The same champion with a release date that \<^verbatim>\<open>fromisoformat\<close> rejects.\<close>

definition raw_undated :: raw_champion where
  "raw_undated = raw_aatrox\<lparr>raw_skins :=
     [\<lparr>raw_skin_id = Some 266000, raw_skin_name = Some ''default'',
       raw_centered_image = None, raw_skin_video_url = None, raw_prices = [],
       raw_release_date = Some ''13 June 2013''\<rparr>]\<rparr>"

definition candidate :: "string \<Rightarrow> string \<Rightarrow> string \<Rightarrow> (string \<rightharpoonup> string)" where
  "candidate game_name tagline sid =
     [''game_name'' \<mapsto> game_name, ''tagline'' \<mapsto> tagline, ''summoner_id'' \<mapsto> sid]"

definition page_with :: "(string \<rightharpoonup> string) list \<Rightarrow> page_props" where
  "page_with cs = \<lparr>page_summoners = Some cs, seasonsById = Some [], championsById = Some [],
     other_keys = True\<rparr>"

text \<open>Page props that carry one raw champion.\<close>

definition champion_page :: page_props where
  "champion_page = (page_with [])\<lparr>championsById := Some [raw_aatrox]\<rparr>"

text \<open>The page props with the two candidates named \<^verbatim>\<open>abc\<close>, and with one of them.\<close>

definition two_abc :: page_props where
  "two_abc = page_with [candidate ''abc'' ''NA1'' ''1'', candidate ''abc'' ''EUW'' ''2'']"

definition one_abc :: page_props where
  "one_abc = page_with [candidate ''abc'' ''NA1'' ''1'']"

definition world :: env where
  "world =
     \<lparr>multisearch = (\<lambda>region q.
        if q = ''a#1,c#3'' then
          PageProps (page_with [candidate ''a'' ''1'' ''id-a'', candidate ''c'' ''3'' ''id-c''])
        else if q = ''abc#EUW'' \<or> q = ''abc'' then
          PageProps two_abc
        else PageProps (page_with [])),
      summary = (\<lambda>region sid.
        if sid = Some ''id-a'' then Data \<lparr>name = ''a#1'', summoner_id = ''id-a''\<rparr>
        else if sid = Some ''id-b'' then Data \<lparr>name = ''b#2'', summoner_id = ''id-b''\<rparr>
        else if sid = Some ''id-c'' then Data \<lparr>name = ''c#3'', summoner_id = ''id-c''\<rparr>
        else if sid = Some ''1'' then Data \<lparr>name = ''abc#NA1'', summoner_id = ''1''\<rparr>
        else if sid = Some ''2'' then Data \<lparr>name = ''abc#EUW'', summoner_id = ''2''\<rparr>
        else NotOk),
      meta_champions = ChampionsData [raw_undated],
      fromisoformat = (\<lambda>s. if s = ''2013-06-13'' then Some 1371081600 else None),
      int_of_str = (\<lambda>s. if s = ''266'' then Some 266 else None),
      Region_NA = ''na''\<rparr>"

text \<open>The same world with a multisearch page that always shows one candidate.\<close>

definition lonely :: env where
  "lonely = world\<lparr>multisearch :=
     (\<lambda>region q. PageProps one_abc)\<rparr>"

text \<open>A new \<^verbatim>\<open>OPGG()\<close> over a store with both catalogs and no summoner.\<close>

definition fresh :: state where
  "fresh = \<lparr>self_summoner_id = None, self_region = ''na'', self_all_seasons = None,
     self_all_champions = None,
     cache = \<lparr>summoner_ids = Map.empty, champion_catalog = [aatrox, ahri],
       season_catalog = [season_13]\<rparr>,
     trace = []\<rparr>"

text \<open>The same over an empty store.\<close>

definition no_catalogs :: state where
  "no_catalogs = fresh\<lparr>cache := \<lparr>summoner_ids = Map.empty, champion_catalog = [],
     season_catalog = []\<rparr>\<rparr>"

text \<open>An \<^verbatim>\<open>OPGG\<close> object whose last summoner was \<^verbatim>\<open>b#2\<close>, which is in the cache.\<close>

definition after_b :: state where
  "after_b = fresh\<lparr>self_summoner_id := Some ''id-b'',
     cache := \<lparr>summoner_ids = [''b#2'' \<mapsto> ''id-b''], champion_catalog = [aatrox, ahri],
       season_catalog = [season_13]\<rparr>\<rparr>"

text \<open>A store that has the empty identifier for \<^verbatim>\<open>b#2\<close>.\<close>

definition blank_b :: state where
  "blank_b = fresh\<lparr>cache := \<lparr>summoner_ids = [''b#2'' \<mapsto> []],
     champion_catalog = [aatrox, ahri], season_catalog = [season_13]\<rparr>\<rparr>"

text \<open>The same object with nothing cached for \<^verbatim>\<open>b#2\<close>.\<close>

definition stale_b :: state where
  "stale_b = fresh\<lparr>self_summoner_id := Some ''id-b''\<rparr>"

section \<open>Properties\<close>

subsection \<open>The cache resolver\<close>

text \<open>
  C8. Recording a summoner identifier is idempotent: recording the same name and
  identifier a second time leaves the store exactly as the first recording left it.
\<close>

theorem Cacher_insert_summoner_idempotent:
  "Cacher_insert_summoner (Cacher_insert_summoner s n sid) n sid =
   Cacher_insert_summoner s n sid"
  by (simp add: Cacher_insert_summoner_def)

subsection \<open>Building the champion list\<close>

lemma Skin_call_raises:
  "call Skin_params Skin_defaults
     [''id'', ''champion_id'', ''name'', ''centered_image'', ''skin_video_url'',
      ''prices'', ''release_date'', ''sales''] x = Inl TypeError"
  by (simp add: call_def binds_def Skin_params_def Skin_defaults_def)

lemma build_spell_raises: "build_spell s = Inl TypeError"
  by (simp add: build_spell_def call_def binds_def Spell_params_def)

lemma build_price_returns: "\<exists>p'. build_price p = Inr p'"
  by (simp add: build_price_def call_def binds_def Price_params_def)

lemma for_each_build_price_returns: "\<exists>ps'. for_each build_price ps = Inr ps'"
proof (induction ps)
  case Nil
  then show ?case by simp
next
  case (Cons p ps)
  then show ?case using build_price_returns [of p] by auto
qed

lemma build_passive_returns: "build_passive p = Inr p"
  by (simp add: build_passive_def call_def binds_def Passive_params_def)

lemma build_skin_raises:
  "build_skin env s =
     (if release_date_of env s = Inl ValueError then Inl ValueError else Inl TypeError)"
  using for_each_build_price_returns [of "raw_prices s"]
  by (auto simp: build_skin_def Skin_call_raises release_date_of_def
      split: sum.splits option.splits)

lemma Champion_call_raises:
  "call Champion_params []
     [''id'', ''key'', ''name'', ''image_url'', ''evolve'', ''partype'',
      ''passive'', ''spells'', ''skins''] x = Inl TypeError"
  by (simp add: call_def binds_def Champion_params_def)

lemma build_champion_raises:
  "build_champion env c =
     (case raw_skins c of
        [] \<Rightarrow> Inl TypeError
      | s # _ \<Rightarrow>
          if release_date_of env s = Inl ValueError then Inl ValueError else Inl TypeError)"
proof (cases "raw_skins c")
  case no_skins: Nil
  show ?thesis
  proof (cases "raw_spells c")
    case Nil
    with no_skins show ?thesis
      by (simp add: build_champion_def build_passive_returns Champion_call_raises)
  next
    case (Cons sp sps)
    with no_skins show ?thesis
      by (simp add: build_champion_def build_spell_raises)
  qed
next
  case (Cons s ss)
  then show ?thesis
    by (simp add: build_champion_def build_skin_raises)
qed

text \<open>
  C9, as amended. Whenever the raw champion payload is not empty,
  \<^verbatim>\<open>get_all_champions\<close> raises instead of returning the list of champions: ValueError
  when the first champion has a skin and the release date of its first skin is a
  non-empty string that \<^verbatim>\<open>datetime.fromisoformat\<close> rejects, and TypeError in every other
  case, from the first constructor call that is given a keyword it does not accept.
\<close>

theorem get_all_champions_raises_on_payload:
  assumes "raw_champs_data env page_props st = (Inr (Inr (c # cs)), st')"
  shows "get_all_champions env page_props st =
     ((case raw_skins c of
         [] \<Rightarrow> Inl TypeError
       | s # _ \<Rightarrow>
           if release_date_of env s = Inl ValueError then Inl ValueError else Inl TypeError),
      st')"
  using assms
  by (simp add: get_all_champions_def build_champion_raises split: list.splits)

theorem get_all_champions_raises_on_payload_witness:
  "raw_champs_data world (Some champion_page) fresh =
     (Inr (Inr [raw_aatrox]), fresh) \<and>
   get_all_champions world (Some champion_page) fresh =
     (Inl TypeError, fresh)"
proof -
  have payload:
    "raw_champs_data world (Some champion_page) fresh =
       (Inr (Inr [raw_aatrox]), fresh)"
    by (simp add: raw_champs_data_def champion_page_def page_with_def truthy_page_props_def)
  have "release_date_of world (hd (raw_skins raw_aatrox)) = Inr (Some 1371081600)"
    by (simp add: release_date_of_def raw_aatrox_def world_def)
  then show ?thesis
    using get_all_champions_raises_on_payload [OF payload] payload
    by (simp add: raw_aatrox_def)
qed

text \<open>
  The claim as it was stated fails: a payload whose first skin carries a release date
  that does not parse raises ValueError, not TypeError.
\<close>

theorem get_all_champions_value_error:
  "fst (get_all_champions world None no_catalogs) = Inl ValueError"
  by (simp add: get_all_champions_def raw_champs_data_def no_catalogs_def fresh_def emit_def
      Cacher_get_all_champs_def world_def raw_undated_def raw_aatrox_def
      build_champion_raises release_date_of_def)

subsection \<open>The shape of what get_champion_by and get_season_by return\<close>











subsection \<open>The stages of search and their events\<close>

lemmas world_defs = world_def lonely_def two_abc_def one_abc_def page_with_def candidate_def
  fresh_def after_b_def stale_b_def blank_b_def
  aatrox_def ahri_def season_13_def no_passive_def

lemmas search_defs = search_def names_of_def emit_def Cacher_get_summoner_id_def
  get_page_props_def query_text_def read_catalogs_def load_seasons_def load_champions_def
  Cacher_get_all_seasons_def Cacher_get_all_champs_def select_summoner_id_def candidates_def
  matches_def strip_def py_isspace_def dict_get_def get_summoner_def
  Cacher_insert_summoner_def search_result_def

lemma cache_emit [simp]: "cache (emit e st) = cache st"
  by (simp add: emit_def)

lemma trace_emit [simp]: "trace (emit e st) = trace st @ [e]"
  by (simp add: emit_def)

lemma self_region_emit [simp]: "self_region (emit e st) = self_region st"
  by (simp add: emit_def)

lemma self_summoner_id_emit [simp]: "self_summoner_id (emit e st) = self_summoner_id st"
  by (simp add: emit_def)

lemma hit_ids_Cons:
  "hit_ids s (n # ns) =
     (case Cacher_get_summoner_id s n of
        None \<Rightarrow> hit_ids s ns
      | Some cached_id \<Rightarrow> if cached_id \<noteq> [] then cached_id # hit_ids s ns else hit_ids s ns)"
  by (simp add: hit_ids_def List.map_filter_simps split: option.splits)

lemma miss_names_Cons:
  "miss_names s (n # ns) =
     (case Cacher_get_summoner_id s n of
        None \<Rightarrow> n # miss_names s ns
      | Some cached_id \<Rightarrow> if cached_id \<noteq> [] then miss_names s ns else n # miss_names s ns)"
  by (simp add: miss_names_def cache_hit_def split: option.splits)

lemma partition_names_returns:
  "partition_names ns c u st = (Inr (c', u'), st') \<Longrightarrow>
   c' = c @ hit_ids (cache st) ns \<and> u' = u @ miss_names (cache st) ns \<and>
   st' = st\<lparr>trace := trace st @ map GetSummonerId ns\<rparr>"
proof (induction ns arbitrary: c u st)
  case Nil
  then show ?case by (simp add: hit_ids_def miss_names_def List.map_filter_simps)
next
  case (Cons n ns)
  show ?case
  proof (cases "CHR ''#'' \<in> set n")
    case False
    with Cons.prems show ?thesis by simp
  next
    case True
    let ?st = "emit (GetSummonerId n) st"
    show ?thesis
    proof (cases "Cacher_get_summoner_id (cache st) n")
      case None
      with True Cons.prems have "partition_names ns c (u @ [n]) ?st = (Inr (c', u'), st')"
        by (simp add: Let_def)
      from Cons.IH [OF this] None show ?thesis
        by (simp add: hit_ids_Cons miss_names_Cons emit_def)
    next
      case (Some cached_id)
      show ?thesis
      proof (cases "cached_id = []")
        case True
        with \<open>CHR ''#'' \<in> set n\<close> Some Cons.prems
        have "partition_names ns c (u @ [n]) ?st = (Inr (c', u'), st')"
          by (simp add: Let_def)
        from Cons.IH [OF this] Some True show ?thesis
          by (simp add: hit_ids_Cons miss_names_Cons emit_def)
      next
        case False
        with \<open>CHR ''#'' \<in> set n\<close> Some Cons.prems
        have "partition_names ns (c @ [cached_id]) u ?st = (Inr (c', u'), st')"
          by (simp add: Let_def)
        from Cons.IH [OF this] Some False show ?thesis
          by (simp add: hit_ids_Cons miss_names_Cons emit_def)
      qed
    qed
  qed
qed

lemma partition_names_fails:
  "partition_names ns c u st = (Inl e, st') \<Longrightarrow>
   \<exists>pre bad. e = NoRegionalIdentifier bad \<and> CHR ''#'' \<notin> set bad \<and>
     st' = st\<lparr>trace := trace st @ map GetSummonerId pre\<rparr>"
proof (induction ns arbitrary: c u st)
  case Nil
  then show ?case by simp
next
  case (Cons n ns)
  show ?case
  proof (cases "CHR ''#'' \<in> set n")
    case False
    with Cons.prems have "e = NoRegionalIdentifier n" "st' = st" by auto
    with False show ?thesis
      by (intro exI [of _ "[]"] exI [of _ n]) simp
  next
    case True
    let ?st = "emit (GetSummonerId n) st"
    from True Cons.prems obtain c1 u1 where "partition_names ns c1 u1 ?st = (Inl e, st')"
      by (auto simp: Let_def split: option.splits if_splits)
    from Cons.IH [OF this] obtain pre bad where
      "e = NoRegionalIdentifier bad" "CHR ''#'' \<notin> set bad"
      "st' = ?st\<lparr>trace := trace ?st @ map GetSummonerId pre\<rparr>"
      by blast
    then show ?thesis
      by (intro exI [of _ "n # pre"] exI [of _ bad]) (simp add: emit_def)
  qed
qed

lemma get_summoner_returns:
  "get_summoner env st = (r, st') \<Longrightarrow>
   st' = emit (SummaryRequest (self_region st) (self_summoner_id st)) st \<and>
   (\<forall>s. r = Inr (Some s) \<longrightarrow> summary env (self_region st) (self_summoner_id st) = Data s)"
  by (auto simp: get_summoner_def Let_def split: summary_reply.splits)









lemma get_page_props_state:
  "get_page_props env a region st = (r, st') \<Longrightarrow> st' = emit (PagePropsRequest a region) st"
  by (auto simp: get_page_props_def Let_def split: page_reply.splits)

lemma get_all_seasons_state:
  "get_all_seasons env (Some pp) st = (r, st') \<Longrightarrow> st' = emit GetAllSeasons st"
  by (auto simp: get_all_seasons_def Let_def split: option.splits list.splits)











lemma only_adds_same_trace:
  "trace a' = trace a \<Longrightarrow> only_adds P a' b \<Longrightarrow> only_adds P a b"
  by (simp add: only_adds_def new_events_def)




lemma search_cases [case_names malformed no_page no_seasons no_champions unresolved
    cached_failed finished]:
  obtains
    (malformed) e st1 where
      "partition_names (names_of q) [] [] st = (Inl e, st1)"
      "search env q region st = (Inl e, st1)"
  | (no_page) st1 e st2 where
      "partition_names (names_of q) [] [] st =
         (Inr (hit_ids (cache st) (names_of q), miss_names (cache st) (names_of q)), st1)"
      "get_page_props env (Lst (miss_names (cache st) (names_of q))) region st1 = (Inl e, st2)"
      "search env q region st = (Inl e, st2)"
  | (no_seasons) st1 pp st2 e st3 where
      "partition_names (names_of q) [] [] st =
         (Inr (hit_ids (cache st) (names_of q), miss_names (cache st) (names_of q)), st1)"
      "get_page_props env (Lst (miss_names (cache st) (names_of q))) region st1 = (Inr pp, st2)"
      "load_seasons env pp (Cacher_get_all_seasons (cache st2))
         (emit GetAllChamps (emit GetAllSeasons st2)) = (Inl e, st3)"
      "search env q region st = (Inl e, st3)"
  | (no_champions) st1 pp st2 st3 e st4 where
      "partition_names (names_of q) [] [] st =
         (Inr (hit_ids (cache st) (names_of q), miss_names (cache st) (names_of q)), st1)"
      "get_page_props env (Lst (miss_names (cache st) (names_of q))) region st1 = (Inr pp, st2)"
      "load_seasons env pp (Cacher_get_all_seasons (cache st2))
         (emit GetAllChamps (emit GetAllSeasons st2)) = (Inr (), st3)"
      "load_champions env pp (Cacher_get_all_champs (cache st2)) st3 = (Inl e, st4)"
      "search env q region st = (Inl e, st4)"
  | (unresolved) st1 pp st2 st3 st4 e st5 where
      "partition_names (names_of q) [] [] st =
         (Inr (hit_ids (cache st) (names_of q), miss_names (cache st) (names_of q)), st1)"
      "get_page_props env (Lst (miss_names (cache st) (names_of q))) region st1 = (Inr pp, st2)"
      "load_seasons env pp (Cacher_get_all_seasons (cache st2))
         (emit GetAllChamps (emit GetAllSeasons st2)) = (Inr (), st3)"
      "load_champions env pp (Cacher_get_all_champs (cache st2)) st3 = (Inr (), st4)"
      "resolve_names env pp (names_of q) [] (st4\<lparr>self_region := region\<rparr>) = (Inl e, st5)"
      "search env q region st = (Inl e, st5)"
  | (cached_failed) st1 pp st2 st3 st4 firsts st5 e st6 where
      "partition_names (names_of q) [] [] st =
         (Inr (hit_ids (cache st) (names_of q), miss_names (cache st) (names_of q)), st1)"
      "get_page_props env (Lst (miss_names (cache st) (names_of q))) region st1 = (Inr pp, st2)"
      "load_seasons env pp (Cacher_get_all_seasons (cache st2))
         (emit GetAllChamps (emit GetAllSeasons st2)) = (Inr (), st3)"
      "load_champions env pp (Cacher_get_all_champs (cache st2)) st3 = (Inr (), st4)"
      "resolve_names env pp (names_of q) [] (st4\<lparr>self_region := region\<rparr>) = (Inr firsts, st5)"
      "resolve_cached env (hit_ids (cache st) (names_of q)) firsts st5 = (Inl e, st6)"
      "search env q region st = (Inl e, st6)"
  | (finished) st1 pp st2 st3 st4 firsts st5 found st6 where
      "partition_names (names_of q) [] [] st =
         (Inr (hit_ids (cache st) (names_of q), miss_names (cache st) (names_of q)), st1)"
      "get_page_props env (Lst (miss_names (cache st) (names_of q))) region st1 = (Inr pp, st2)"
      "load_seasons env pp (Cacher_get_all_seasons (cache st2))
         (emit GetAllChamps (emit GetAllSeasons st2)) = (Inr (), st3)"
      "load_champions env pp (Cacher_get_all_champs (cache st2)) st3 = (Inr (), st4)"
      "resolve_names env pp (names_of q) [] (st4\<lparr>self_region := region\<rparr>) = (Inr firsts, st5)"
      "resolve_cached env (hit_ids (cache st) (names_of q)) firsts st5 = (Inr found, st6)"
      "search env q region st = (search_result (names_of q) found, st6)"
proof -
  let ?ns = "names_of q"
  obtain r1 st1 where s1: "partition_names ?ns [] [] st = (r1, st1)"
    by (cases "partition_names ?ns [] [] st")
  show thesis
  proof (cases r1)
    case (Inl e)
    with s1 show thesis by (intro malformed [of e st1]) (simp_all add: search_def read_catalogs_def)
  next
    case (Inr cu)
    with s1 have r1: "r1 = Inr (hit_ids (cache st) ?ns, miss_names (cache st) ?ns)"
      by (cases cu) (auto dest: partition_names_returns)
    note s1 = s1 [unfolded r1]
    obtain r2 st2 where s2:
      "get_page_props env (Lst (miss_names (cache st) ?ns)) region st1 = (r2, st2)"
      by (cases "get_page_props env (Lst (miss_names (cache st) ?ns)) region st1")
    show thesis
    proof (cases r2)
      case (Inl e)
      with s1 s2 show thesis by (intro no_page [of st1 e st2]) (simp_all add: search_def read_catalogs_def)
    next
      case (Inr pp)
      note s2 = s2 [unfolded Inr]
      obtain r3 st3 where s3: "load_seasons env pp (Cacher_get_all_seasons (cache st2))
         (emit GetAllChamps (emit GetAllSeasons st2)) = (r3, st3)"
        by (cases "load_seasons env pp (Cacher_get_all_seasons (cache st2))
         (emit GetAllChamps (emit GetAllSeasons st2))")
      show thesis
      proof (cases r3)
        case (Inl e)
        with s1 s2 s3 show thesis
          by (intro no_seasons [of st1 pp st2 e st3]) (simp_all add: search_def read_catalogs_def)
      next
        case (Inr x3)
        note s3 = s3 [unfolded Inr]
        obtain r4 st4 where s4:
          "load_champions env pp (Cacher_get_all_champs (cache st2)) st3 = (r4, st4)"
          by (cases "load_champions env pp (Cacher_get_all_champs (cache st2)) st3")
        show thesis
        proof (cases r4)
          case (Inl e)
          with s1 s2 s3 s4 show thesis
            by (intro no_champions [of st1 pp st2 st3 e st4]) (simp_all add: search_def read_catalogs_def)
        next
          case (Inr x4)
          note s4 = s4 [unfolded Inr]
          obtain r5 st5 where s5:
            "resolve_names env pp ?ns [] (st4\<lparr>self_region := region\<rparr>) = (r5, st5)"
            by (cases "resolve_names env pp ?ns [] (st4\<lparr>self_region := region\<rparr>)")
          show thesis
          proof (cases r5)
            case (Inl e)
            with s1 s2 s3 s4 s5 show thesis
              by (intro unresolved [of st1 pp st2 st3 st4 e st5]) (simp_all add: search_def read_catalogs_def)
          next
            case (Inr firsts)
            note s5 = s5 [unfolded Inr]
            obtain r6 st6 where s6:
              "resolve_cached env (hit_ids (cache st) ?ns) firsts st5 = (r6, st6)"
              by (cases "resolve_cached env (hit_ids (cache st) ?ns) firsts st5")
            show thesis
            proof (cases r6)
              case (Inl e)
              with s1 s2 s3 s4 s5 s6 show thesis
                by (intro cached_failed [of st1 pp st2 st3 st4 firsts st5 e st6])
                  (simp_all add: search_def read_catalogs_def)
            next
              case (Inr found)
              with s1 s2 s3 s4 s5 s6 show thesis
                by (intro finished [of st1 pp st2 st3 st4 firsts st5 found st6])
                  (simp_all add: search_def read_catalogs_def)
            qed
          qed
        qed
      qed
    qed
  qed
qed


subsection \<open>Populated catalogs\<close>

lemma keeps_catalogs_same: "cache st' = cache st \<Longrightarrow> keeps_catalogs st st'"
  by (simp add: keeps_catalogs_def)

lemma keeps_catalogs_trans:
  "keeps_catalogs a b \<Longrightarrow> keeps_catalogs b c \<Longrightarrow> keeps_catalogs a c"
  by (auto simp: keeps_catalogs_def split: if_splits)

lemma partition_names_cache:
  "partition_names ns c u st = (r, st') \<Longrightarrow> cache st' = cache st"
  by (cases r) (auto dest: partition_names_fails partition_names_returns)

lemma get_all_champions_cache:
  "get_all_champions env pp st = (r, st') \<Longrightarrow> cache st' = cache st"
  by (auto simp: get_all_champions_def raw_champs_data_def Let_def
      split: option.splits list.splits sum.splits prod.splits if_splits champions_reply.splits)

lemma load_seasons_keeps:
  assumes "load_seasons env pp (Cacher_get_all_seasons (cache st)) st = (r, st')"
  shows "keeps_catalogs st st'"
proof (cases "season_catalog (cache st) = []")
  case False
  then obtain c cs where "Cacher_get_all_seasons (cache st) = Some (c # cs)"
    by (cases "season_catalog (cache st)") (auto simp: Cacher_get_all_seasons_def)
  with assms show ?thesis
    by (auto simp: load_seasons_def intro: keeps_catalogs_same)
next
  case True
  obtain r1 st1 where g: "get_all_seasons env (Some pp) st = (r1, st1)"
    by (cases "get_all_seasons env (Some pp) st")
  then have "st1 = emit GetAllSeasons st" by (rule get_all_seasons_state)
  with True assms g show ?thesis
    by (auto simp: load_seasons_def keeps_catalogs_def Cacher_get_all_seasons_def
        Cacher_insert_all_seasons_def split: sum.splits)
qed

lemma load_champions_keeps:
  assumes "load_champions env pp (Cacher_get_all_champs (cache st)) st = (r, st')"
  shows "keeps_catalogs st st'"
proof (cases "champion_catalog (cache st) = []")
  case False
  then obtain c cs where "Cacher_get_all_champs (cache st) = Some (c # cs)"
    by (cases "champion_catalog (cache st)") (auto simp: Cacher_get_all_champs_def)
  with assms show ?thesis
    by (auto simp: load_champions_def intro: keeps_catalogs_same)
next
  case True
  obtain r1 st1 where g: "get_all_champions env (Some pp) st = (r1, st1)"
    by (cases "get_all_champions env (Some pp) st")
  then have "cache st1 = cache st" by (rule get_all_champions_cache)
  with True assms g show ?thesis
    by (auto simp: load_champions_def keeps_catalogs_def Cacher_get_all_champs_def
        Cacher_insert_all_champs_def split: sum.splits)
qed

lemma get_summoner_cache: "get_summoner env st = (r, st') \<Longrightarrow> cache st' = cache st"
  by (auto dest: get_summoner_returns)

lemma resolve_names_keeps:
  "resolve_names env pp ns acc st = (r, st') \<Longrightarrow> keeps_catalogs st st'"
proof (induction ns arbitrary: acc st)
  case Nil
  then show ?case by (simp add: keeps_catalogs_same)
next
  case (Cons n ns)
  show ?case
  proof (cases "select_summoner_id pp n (self_summoner_id st)")
    case (Inl e)
    with Cons.prems show ?thesis by (simp add: keeps_catalogs_same)
  next
    case (Inr sid)
    obtain r1 st1 where g: "get_summoner env (st\<lparr>self_summoner_id := sid\<rparr>) = (r1, st1)"
      by (cases "get_summoner env (st\<lparr>self_summoner_id := sid\<rparr>)")
    then have c1: "cache st1 = cache st" by (auto dest: get_summoner_cache)
    show ?thesis
    proof (cases "\<exists>s. r1 = Inr (Some s)")
      case False
      with Inr g Cons.prems have "st' = st1"
        by (auto split: sum.splits option.splits)
      with c1 show ?thesis by (simp add: keeps_catalogs_same)
    next
      case True
      then obtain s where r1: "r1 = Inr (Some s)" ..
      let ?st2 = "emit (InsertSummoner (name s) (summoner_id s))
          (st1\<lparr>cache := Cacher_insert_summoner (cache st1) (name s) (summoner_id s)\<rparr>)"
      from r1 Inr g Cons.prems
      have "resolve_names env pp ns (acc @ [s]) ?st2 = (r, st')" by simp
      then have "keeps_catalogs ?st2 st'" by (rule Cons.IH)
      moreover have "keeps_catalogs st ?st2"
        using c1 by (simp add: keeps_catalogs_def Cacher_insert_summoner_def)
      ultimately show ?thesis by (blast intro: keeps_catalogs_trans)
    qed
  qed
qed

lemma resolve_cached_cache:
  "resolve_cached env ids acc st = (r, st') \<Longrightarrow> cache st' = cache st"
proof (induction ids arbitrary: acc st)
  case Nil
  then show ?case by simp
next
  case (Cons cached_id ids)
  obtain r1 st1 where g:
    "get_summoner env (st\<lparr>self_summoner_id := Some cached_id\<rparr>) = (r1, st1)"
    by (cases "get_summoner env (st\<lparr>self_summoner_id := Some cached_id\<rparr>)")
  then have c1: "cache st1 = cache st" by (auto dest: get_summoner_cache)
  with g Cons show ?case
    by (auto split: sum.splits option.splits)
qed

lemma load_seasons_champion_catalog:
  assumes "load_seasons env pp cached st = (r, st')"
  shows "champion_catalog (cache st') = champion_catalog (cache st)"
proof -
  obtain r1 st1 where g: "get_all_seasons env (Some pp) st = (r1, st1)"
    by (cases "get_all_seasons env (Some pp) st")
  then have "st1 = emit GetAllSeasons st" by (rule get_all_seasons_state)
  with assms g show ?thesis
    by (auto simp: load_seasons_def Cacher_insert_all_seasons_def
        split: option.splits list.splits sum.splits)
qed

lemma search_keeps_catalogs: "keeps_catalogs st (snd (search env q region st))"
proof -
  note t = keeps_catalogs_trans
  have first: "keeps_catalogs st st2"
    if "partition_names (names_of q) [] [] st = (r1, st1)"
      and "get_page_props env a region st1 = (r2, st2)" for r1 st1 a r2 st2
    using that
    by (auto dest!: partition_names_cache get_page_props_state intro: keeps_catalogs_same)
  have seasons: "keeps_catalogs st2 st3"
    if "load_seasons env pp (Cacher_get_all_seasons (cache st2))
         (emit GetAllChamps (emit GetAllSeasons st2)) = (r, st3)" for st2 st3 pp r
  proof -
    let ?st = "emit GetAllChamps (emit GetAllSeasons st2)"
    from that have "load_seasons env pp (Cacher_get_all_seasons (cache ?st)) ?st = (r, st3)"
      by simp
    then have "keeps_catalogs ?st st3" by (rule load_seasons_keeps)
    then show ?thesis by (simp add: keeps_catalogs_def)
  qed
  have champions: "keeps_catalogs st3 st4"
    if "load_seasons env pp (Cacher_get_all_seasons (cache st2))
         (emit GetAllChamps (emit GetAllSeasons st2)) = (r, st3)"
      and "load_champions env pp (Cacher_get_all_champs (cache st2)) st3 = (r', st4)"
    for st2 st3 st4 pp r r'
  proof -
    from that(1) have "champion_catalog (cache st3) = champion_catalog (cache st2)"
      by (auto dest: load_seasons_champion_catalog)
    then have "Cacher_get_all_champs (cache st2) = Cacher_get_all_champs (cache st3)"
      by (simp add: Cacher_get_all_champs_def)
    with that(2) show ?thesis by (simp add: load_champions_keeps)
  qed
  have names: "keeps_catalogs st4 st5"
    if "resolve_names env pp ns acc (st4\<lparr>self_region := region\<rparr>) = (r, st5)"
    for st4 st5 pp ns acc r
    using resolve_names_keeps [OF that] by (simp add: keeps_catalogs_def)
  have cached: "keeps_catalogs st5 st6"
    if "resolve_cached env ids acc st5 = (r, st6)" for st5 st6 ids acc r
    using that by (auto dest: resolve_cached_cache intro: keeps_catalogs_same)
  show ?thesis
  proof (cases rule: search_cases [of q st env region])
    case (malformed e st1)
    then show ?thesis by (auto dest: partition_names_cache intro: keeps_catalogs_same)
  next
    case (no_page st1 e st2)
    then show ?thesis by (auto intro: first)
  next
    case (no_seasons st1 pp st2 e st3)
    then show ?thesis by (auto intro: t [OF first seasons])
  next
    case (no_champions st1 pp st2 st3 e st4)
    then show ?thesis by (auto intro: t [OF t [OF first seasons] champions])
  next
    case (unresolved st1 pp st2 st3 st4 e st5)
    then show ?thesis by (auto intro: t [OF t [OF t [OF first seasons] champions] names])
  next
    case (cached_failed st1 pp st2 st3 st4 firsts st5 e st6)
    then show ?thesis
      by (auto intro: t [OF t [OF t [OF t [OF first seasons] champions] names] cached])
  next
    case (finished st1 pp st2 st3 st4 firsts st5 found st6)
    then show ?thesis
      by (auto intro: t [OF t [OF t [OF t [OF first seasons] champions] names] cached])
  qed
qed

text \<open>
  C6. Replacing a catalog by an empty collection changes nothing: after the catalog
  \<open>[c1, c2]\<close> has been set, setting the empty catalog leaves \<open>[c1, c2]\<close> in place, for
  champions and for seasons. And \<^verbatim>\<open>search\<close>, whatever it fetches and however it ends,
  leaves a populated catalog of the store as it is: it inserts a catalog only when the
  cache returned none.
\<close>

theorem populated_catalog_survives:
  "Cacher_insert_all_champs s [] = s \<and> Cacher_insert_all_seasons s [] = s \<and>
   Cacher_get_all_champs
     (Cacher_insert_all_champs (Cacher_insert_all_champs s [c1, c2]) []) = Some [c1, c2] \<and>
   Cacher_get_all_seasons
     (Cacher_insert_all_seasons (Cacher_insert_all_seasons s [s1, s2]) []) = Some [s1, s2] \<and>
   (champion_catalog (cache st) \<noteq> [] \<longrightarrow>
    champion_catalog (cache (snd (search env q region st))) = champion_catalog (cache st)) \<and>
   (season_catalog (cache st) \<noteq> [] \<longrightarrow>
    season_catalog (cache (snd (search env q region st))) = season_catalog (cache st))"
  using search_keeps_catalogs [of st env q region]
  by (simp add: Cacher_insert_all_champs_def Cacher_insert_all_seasons_def
      Cacher_get_all_champs_def Cacher_get_all_seasons_def keeps_catalogs_def)

theorem populated_catalog_survives_witness:
  "champion_catalog (cache fresh) \<noteq> [] \<and> season_catalog (cache fresh) \<noteq> [] \<and>
   champion_catalog (cache (snd (search world (Lst [''a#1'', ''c#3'']) ''na'' fresh))) =
     [aatrox, ahri] \<and>
   season_catalog (cache (snd (search world (Lst [''a#1'', ''c#3'']) ''na'' fresh))) =
     [season_13] \<and>
   Cacher_get_all_champs
     (Cacher_insert_all_champs (Cacher_insert_all_champs (cache no_catalogs) [aatrox, ahri]) [])
     = Some [aatrox, ahri]"
  using populated_catalog_survives [of "cache no_catalogs" aatrox ahri season_13 season_13
      fresh world "Lst [''a#1'', ''c#3'']" "''na''"]
  by (simp add: fresh_def)

subsection \<open>Cache precedence\<close>

lemma split_on_without_separator: "c \<notin> set n \<Longrightarrow> split_on c n = [n]"
  by (induction n) auto






lemma search_mixed_batch_events:
  "new_events after_b (snd (search world (Lst [''a#1'', ''b#2'', ''c#3'']) ''na'' after_b)) =
     [GetSummonerId ''a#1'', GetSummonerId ''b#2'', GetSummonerId ''c#3'',
      PagePropsRequest (Lst [''a#1'', ''c#3'']) ''na'', GetAllSeasons, GetAllChamps,
      SummaryRequest ''na'' (Some ''id-a''), InsertSummoner ''a#1'' ''id-a'',
      SummaryRequest ''na'' (Some ''id-a''), InsertSummoner ''a#1'' ''id-a'',
      SummaryRequest ''na'' (Some ''id-c''), InsertSummoner ''c#3'' ''id-c'',
      SummaryRequest ''na'' (Some ''id-b'')]"
  by (simp add: search_defs world_defs new_events_def Let_def)

subsection \<open>The order of the results\<close>

lemma select_summoner_id_decided:
  "select_summoner_id pp n None = Inr (Some sid) \<Longrightarrow>
   select_summoner_id pp n cur = Inr (Some sid)"
  by (auto simp: select_summoner_id_def split: if_splits list.splits option.splits)

lemma resolve_cached_returns:
  "resolve_cached env ids acc st = (Inr out, st') \<Longrightarrow>
   \<exists>hits. out = acc @ hits \<and>
     list_all2 (\<lambda>cached_id s. summary env (self_region st) (Some cached_id) = Data s) ids hits"
proof (induction ids arbitrary: acc st)
  case Nil
  then show ?case by simp
next
  case (Cons cached_id ids)
  let ?st0 = "st\<lparr>self_summoner_id := Some cached_id\<rparr>"
  obtain r1 st1 where g: "get_summoner env ?st0 = (r1, st1)"
    by (cases "get_summoner env ?st0")
  with Cons.prems obtain s where r1: "r1 = Inr (Some s)"
    and rest: "resolve_cached env ids (acc @ [s]) st1 = (Inr out, st')"
    by (auto split: sum.splits option.splits)
  from g r1 have s: "summary env (self_region st) (Some cached_id) = Data s"
    and st1: "self_region st1 = self_region st"
    by (auto dest: get_summoner_returns)
  from Cons.IH [OF rest] st1 obtain hits where
    "out = (acc @ [s]) @ hits"
    "list_all2 (\<lambda>cached_id s. summary env (self_region st) (Some cached_id) = Data s) ids hits"
    by auto
  with s show ?case
    by (intro exI [of _ "s # hits"]) simp
qed

lemma resolve_names_returns:
  "resolve_names env pp ns acc st = (Inr out, st') \<Longrightarrow>
   self_region st' = self_region st \<and>
   (\<exists>firsts. out = acc @ firsts \<and>
     list_all2 (\<lambda>n s. \<forall>sid. select_summoner_id pp n None = Inr (Some sid) \<longrightarrow>
                  summary env (self_region st) (Some sid) = Data s) ns firsts)"
proof (induction ns arbitrary: acc st)
  case Nil
  then show ?case by simp
next
  case (Cons n ns)
  from Cons.prems obtain cur' where sel: "select_summoner_id pp n (self_summoner_id st) = Inr cur'"
    by (auto split: sum.splits)
  let ?st0 = "st\<lparr>self_summoner_id := cur'\<rparr>"
  obtain r1 st1 where g: "get_summoner env ?st0 = (r1, st1)"
    by (cases "get_summoner env ?st0")
  let ?ins = "\<lambda>s. emit (InsertSummoner (name s) (summoner_id s))
      (st1\<lparr>cache := Cacher_insert_summoner (cache st1) (name s) (summoner_id s)\<rparr>)"
  from Cons.prems sel g obtain s where r1: "r1 = Inr (Some s)"
    and rest: "resolve_names env pp ns (acc @ [s]) (?ins s) = (Inr out, st')"
    by (auto split: sum.splits option.splits)
  from g r1 have s: "summary env (self_region st) cur' = Data s"
    and st1: "self_region st1 = self_region st"
    by (auto dest: get_summoner_returns)
  from Cons.IH [OF rest] st1 obtain firsts where
    reg: "self_region st' = self_region st" and out: "out = (acc @ [s]) @ firsts" and
    all: "list_all2 (\<lambda>n s. \<forall>sid. select_summoner_id pp n None = Inr (Some sid) \<longrightarrow>
                  summary env (self_region st) (Some sid) = Data s) ns firsts"
    by auto
  have "\<forall>sid. select_summoner_id pp n None = Inr (Some sid) \<longrightarrow>
      summary env (self_region st) (Some sid) = Data s"
    using sel s by (auto dest: select_summoner_id_decided [where cur = "self_summoner_id st"])
  with reg out all show ?case
    by (intro conjI exI [of _ "s # firsts"]) simp_all
qed

text \<open>
  C5, as amended. The result of a successful \<^verbatim>\<open>search\<close> ends with one summoner for each
  cache hit, in the order in which the hits stand in the input, each of them the
  summoner the API returns for the cached identifier; before them stand the summoners
  built in the loop over the names. When no name of the batch is a cache hit, the
  result has exactly one entry per name, in input order: the entry of a name for which
  the page props decide an identifier (a matching candidate, or the only candidate) is
  the summoner of that identifier.
\<close>

theorem search_result_order:
  assumes "fst (search env q region st) = Inr r"
  shows "\<exists>pp firsts hits.
     fst (get_page_props env (Lst (miss_names (cache st) (names_of q))) region st) = Inr pp \<and>
     items r = firsts @ hits \<and>
     list_all2 (\<lambda>cached_id s. summary env region (Some cached_id) = Data s)
       (hit_ids (cache st) (names_of q)) hits \<and>
     (hit_ids (cache st) (names_of q) = [] \<longrightarrow>
      list_all2 (\<lambda>n s. \<forall>sid. select_summoner_id pp n None = Inr (Some sid) \<longrightarrow>
                   summary env region (Some sid) = Data s) (names_of q) firsts)"
proof (cases rule: search_cases [of q st env region])
  case (finished st1 pp st2 st3 st4 firsts st5 found st6)
  from finished(5) have reg5: "self_region st5 = region"
    and "\<exists>fs. firsts = [] @ fs \<and>
      list_all2 (\<lambda>n s. \<forall>sid. select_summoner_id pp n None = Inr (Some sid) \<longrightarrow>
         summary env region (Some sid) = Data s) (names_of q) fs"
    by (auto dest!: resolve_names_returns)
  then have firsts: "list_all2 (\<lambda>n s. \<forall>sid. select_summoner_id pp n None = Inr (Some sid) \<longrightarrow>
         summary env region (Some sid) = Data s) (names_of q) firsts"
    by simp
  from finished(6) reg5 obtain hits where found: "found = firsts @ hits"
    and hits: "list_all2 (\<lambda>cached_id s. summary env region (Some cached_id) = Data s)
       (hit_ids (cache st) (names_of q)) hits"
    by (auto dest!: resolve_cached_returns)
  from finished(7) assms have "search_result (names_of q) found = Inr r" by simp
  then have "items r = found"
    by (auto simp: search_result_def split: list.splits)
  moreover from finished(2)
  have "fst (get_page_props env (Lst (miss_names (cache st) (names_of q))) region st) = Inr pp"
    by (auto simp: get_page_props_def Let_def split: page_reply.splits)
  ultimately show ?thesis
    using found hits firsts by blast
qed (use assms in simp_all)

lemma search_two_misses:
  "fst (search world (Lst [''a#1'', ''c#3'']) ''na'' fresh) =
     Inr (Many [\<lparr>name = ''a#1'', summoner_id = ''id-a''\<rparr>,
                \<lparr>name = ''c#3'', summoner_id = ''id-c''\<rparr>])"
  by (simp add: search_defs world_defs Let_def)

theorem search_result_order_witness:
  "fst (search world (Lst [''a#1'', ''c#3'']) ''na'' fresh) =
     Inr (Many [\<lparr>name = ''a#1'', summoner_id = ''id-a''\<rparr>,
                \<lparr>name = ''c#3'', summoner_id = ''id-c''\<rparr>]) \<and>
   hit_ids (cache fresh) [''a#1'', ''c#3''] = [] \<and>
   select_summoner_id
     (page_with [candidate ''a'' ''1'' ''id-a'', candidate ''c'' ''3'' ''id-c'']) ''c#3'' None =
     Inr (Some ''id-c'') \<and>
   (\<exists>pp firsts hits.
     fst (get_page_props world (Lst (miss_names (cache fresh) [''a#1'', ''c#3''])) ''na'' fresh) =
       Inr pp \<and>
     [\<lparr>name = ''a#1'', summoner_id = ''id-a''\<rparr>, \<lparr>name = ''c#3'', summoner_id = ''id-c''\<rparr>] =
       firsts @ hits \<and>
     list_all2 (\<lambda>cached_id s. summary world ''na'' (Some cached_id) = Data s)
       (hit_ids (cache fresh) [''a#1'', ''c#3'']) hits \<and>
     (hit_ids (cache fresh) [''a#1'', ''c#3''] = [] \<longrightarrow>
      list_all2 (\<lambda>n s. \<forall>sid. select_summoner_id pp n None = Inr (Some sid) \<longrightarrow>
                   summary world ''na'' (Some sid) = Data s) [''a#1'', ''c#3''] firsts))"
proof -
  have "hit_ids (cache fresh) [''a#1'', ''c#3''] = []"
    by (simp add: hit_ids_def List.map_filter_simps fresh_def Cacher_get_summoner_id_def)
  moreover have "select_summoner_id
     (page_with [candidate ''a'' ''1'' ''id-a'', candidate ''c'' ''3'' ''id-c'']) ''c#3'' None =
     Inr (Some ''id-c'')"
    by (simp add: search_defs world_defs)
  ultimately show ?thesis
    using search_result_order [OF search_two_misses] search_two_misses
    by (simp add: names_of_def)
qed

text \<open>
  The claim as it was stated fails for a batch with a cache hit between two misses: the
  result has four entries for three names, and the entry of the cache hit comes last.
\<close>

theorem search_mixed_batch_order:
  "cache_hit (cache after_b) ''b#2'' \<and>
   fst (search world (Lst [''a#1'', ''b#2'', ''c#3'']) ''na'' after_b) =
     Inr (Many [\<lparr>name = ''a#1'', summoner_id = ''id-a''\<rparr>,
                \<lparr>name = ''a#1'', summoner_id = ''id-a''\<rparr>,
                \<lparr>name = ''c#3'', summoner_id = ''id-c''\<rparr>,
                \<lparr>name = ''b#2'', summoner_id = ''id-b''\<rparr>])"
  by (simp add: search_defs world_defs cache_hit_def Let_def)

subsection \<open>Names without a regional identifier\<close>

lemma partition_names_malformed:
  "list_all (\<lambda>n. CHR ''#'' \<in> set n) pre \<Longrightarrow> CHR ''#'' \<notin> set bad \<Longrightarrow>
   partition_names (pre @ bad # post) c u st =
     (Inl (NoRegionalIdentifier bad), st\<lparr>trace := trace st @ map GetSummonerId pre\<rparr>)"
proof (induction pre arbitrary: c u st)
  case Nil
  then show ?case by simp
next
  case (Cons n pre)
  then show ?case
    by (simp add: emit_def Let_def split: option.splits)
qed

text \<open>
  C2, as amended. A batch whose first name without \<^verbatim>\<open>#\<close> is \<open>bad\<close> fails as a whole
  with the exception for the missing regional identifier. Up to the failure nothing of
  the state changes, and the only events are one read of the store for each name that
  precedes \<open>bad\<close>: there is no network request and no write to the store, and there is
  no store access at all exactly when \<open>bad\<close> is the first name.
\<close>

theorem search_malformed_name:
  assumes "names_of q = pre @ bad # post"
    and "list_all (\<lambda>n. CHR ''#'' \<in> set n) pre" and "CHR ''#'' \<notin> set bad"
  shows "search env q region st =
           (Inl (NoRegionalIdentifier bad), st\<lparr>trace := trace st @ map GetSummonerId pre\<rparr>) \<and>
         new_events st (snd (search env q region st)) = map GetSummonerId pre \<and>
         list_all (\<lambda>e. \<not> is_network_access e \<and> \<not> is_store_write e)
           (new_events st (snd (search env q region st)))"
proof -
  have "search env q region st =
      (Inl (NoRegionalIdentifier bad), st\<lparr>trace := trace st @ map GetSummonerId pre\<rparr>)"
    using partition_names_malformed [OF assms(2,3)] assms(1)
    by (simp add: search_def)
  then show ?thesis
    by (simp add: new_events_def list_all_iff)
qed

theorem search_malformed_name_witness:
  "names_of (Str ''a#1,noSeparatorName,c#3'') = [''a#1''] @ ''noSeparatorName'' # [''c#3''] \<and>
   list_all (\<lambda>n. CHR ''#'' \<in> set n) [''a#1''] \<and> CHR ''#'' \<notin> set ''noSeparatorName'' \<and>
   search world (Str ''a#1,noSeparatorName,c#3'') ''na'' fresh =
     (Inl (NoRegionalIdentifier ''noSeparatorName''),
      fresh\<lparr>trace := [GetSummonerId ''a#1'']\<rparr>) \<and>
   new_events fresh (snd (search world (Str ''a#1,noSeparatorName,c#3'') ''na'' fresh)) =
     [GetSummonerId ''a#1'']"
proof -
  have names: "names_of (Str ''a#1,noSeparatorName,c#3'') =
      [''a#1''] @ ''noSeparatorName'' # [''c#3'']"
    by (simp add: names_of_def)
  have tagged: "list_all (\<lambda>n. CHR ''#'' \<in> set n) [''a#1'']" by simp
  have untagged: "CHR ''#'' \<notin> set ''noSeparatorName''" by simp
  have "trace fresh = []" by (simp add: fresh_def)
  with search_malformed_name [OF names tagged untagged, of world "''na''" fresh]
  have "search world (Str ''a#1,noSeparatorName,c#3'') ''na'' fresh =
     (Inl (NoRegionalIdentifier ''noSeparatorName''),
      fresh\<lparr>trace := [GetSummonerId ''a#1'']\<rparr>)"
    and "new_events fresh (snd (search world (Str ''a#1,noSeparatorName,c#3'') ''na'' fresh)) =
     [GetSummonerId ''a#1'']"
    by (simp_all add: new_events_def)
  with names tagged untagged show ?thesis by blast
qed

text \<open>
  The claim as it was stated fails for a malformed name that is not the first: the
  store has been read for the names before it.
\<close>

theorem search_malformed_after_store_read:
  "fst (search world (Lst [''a#1'', ''noSeparatorName'']) ''na'' fresh) =
     Inl (NoRegionalIdentifier ''noSeparatorName'') \<and>
   trace (snd (search world (Lst [''a#1'', ''noSeparatorName'']) ''na'' fresh)) =
     [GetSummonerId ''a#1''] \<and>
   is_store_access (GetSummonerId ''a#1'')"
  by (simp add: search_def names_of_def emit_def fresh_def Cacher_get_summoner_id_def)

text \<open>The malformed name alone, as the first of its batch, fails before any event.\<close>

lemma search_malformed_first:
  "search world (Lst [''noSeparatorName'']) ''na'' fresh =
     (Inl (NoRegionalIdentifier ''noSeparatorName''), fresh)"
  by (simp add: search_def names_of_def)

subsection \<open>Disambiguation\<close>

lemma find_first:
  "list_all (\<lambda>x. \<not> P x) before \<Longrightarrow> P c \<Longrightarrow> find P (before @ c # after) = Some c"
  by (induction before) auto

lemma partition_names_untagged:
  assumes "list_ex (\<lambda>m. CHR ''#'' \<notin> set m) ns"
  shows "\<exists>bad st'. CHR ''#'' \<notin> set bad \<and> bad \<in> set ns \<and>
     partition_names ns c u st = (Inl (NoRegionalIdentifier bad), st')"
proof -
  from assms have "\<exists>m\<in>set ns. CHR ''#'' \<notin> set m" by (simp add: list_ex_iff)
  then obtain pre bad post where ns: "ns = pre @ bad # post" and bad: "CHR ''#'' \<notin> set bad"
    and pre: "\<forall>m\<in>set pre. \<not> CHR ''#'' \<notin> set m"
    by (auto dest!: split_list_first_prop)
  from pre have "list_all (\<lambda>n. CHR ''#'' \<in> set n) pre" by (simp add: list_all_iff)
  from partition_names_malformed [OF this bad] ns bad show ?thesis by auto
qed

lemma search_untagged:
  assumes "list_ex (\<lambda>m. CHR ''#'' \<notin> set m) (names_of q)"
  shows "\<exists>bad. CHR ''#'' \<notin> set bad \<and> bad \<in> set (names_of q) \<and>
     fst (search env q region st) = Inl (NoRegionalIdentifier bad)"
proof -
  from partition_names_untagged [OF assms, of "[]" "[]" st]
  obtain bad st' where "CHR ''#'' \<notin> set bad" "bad \<in> set (names_of q)"
    "partition_names (names_of q) [] [] st = (Inl (NoRegionalIdentifier bad), st')"
    by blast
  then show ?thesis by (auto simp: search_def)
qed

text \<open>
  C3, as amended. (i) When the page props hold more than one candidate and the name has
  exactly one \<^verbatim>\<open>#\<close>, the identifier selected is that of the first candidate whose
  \<^verbatim>\<open>game_name\<close> and \<^verbatim>\<open>tagline\<close> equal the stripped halves of the name. (ii) When the page
  props hold exactly one candidate, that candidate is accepted, whatever the name. (iii)
  The selection raises the exception for multiple results at a name without \<^verbatim>\<open>#\<close> when
  there are several candidates; but \<^verbatim>\<open>search\<close> never comes that far with such a name: a
  query that contains a name without \<^verbatim>\<open>#\<close> fails as a whole with the exception for
  the missing regional identifier, so that an untagged query yields neither the
  identifier of a candidate nor the exception for multiple results.
\<close>

theorem disambiguation_policy:
  "(1 < length (candidates pp) \<longrightarrow> split_on (CHR ''#'') n = [a, b] \<longrightarrow>
    candidates pp = before @ c # after \<longrightarrow> matches a b c \<longrightarrow>
    list_all (\<lambda>x. \<not> matches a b x) before \<longrightarrow>
    select_summoner_id pp n cur = Inr (Some (dict_get c ''summoner_id'' []))) \<and>
   (length (candidates pp1) = 1 \<longrightarrow> (candidates pp1 ! 0) ''summoner_id'' = Some sid \<longrightarrow>
    select_summoner_id pp1 m1 cur1 = Inr (Some sid)) \<and>
   (1 < length (candidates pp2) \<longrightarrow> CHR ''#'' \<notin> set m2 \<longrightarrow>
    select_summoner_id pp2 m2 cur2 = Inl (MultipleSearchResults m2)) \<and>
   (list_ex (\<lambda>m. CHR ''#'' \<notin> set m) (names_of q) \<longrightarrow>
    (\<exists>bad. CHR ''#'' \<notin> set bad \<and> bad \<in> set (names_of q) \<and>
       fst (search env q region st) = Inl (NoRegionalIdentifier bad)))"
proof (intro conjI impI)
  assume many: "1 < length (candidates pp)" and halves: "split_on (CHR ''#'') n = [a, b]"
    and cs: "candidates pp = before @ c # after" and c: "matches a b c"
    and before: "list_all (\<lambda>x. \<not> matches a b x) before"
  from halves have tagged: "CHR ''#'' \<in> set n"
    using split_on_without_separator [of "CHR ''#''" n] by auto
  from before c have "find (matches a b) (candidates pp) = Some c"
    unfolding cs using find_first [of "matches a b" before c after] by simp
  with many halves tagged
  show "select_summoner_id pp n cur = Inr (Some (dict_get c ''summoner_id'' []))"
    by (simp add: select_summoner_id_def)
next
  assume "length (candidates pp1) = 1" and "(candidates pp1 ! 0) ''summoner_id'' = Some sid"
  then show "select_summoner_id pp1 m1 cur1 = Inr (Some sid)"
    by (simp add: select_summoner_id_def)
next
  assume "1 < length (candidates pp2)" and "CHR ''#'' \<notin> set m2"
  then show "select_summoner_id pp2 m2 cur2 = Inl (MultipleSearchResults m2)"
    by (simp add: select_summoner_id_def)
next
  assume "list_ex (\<lambda>m. CHR ''#'' \<notin> set m) (names_of q)"
  then show "\<exists>bad. CHR ''#'' \<notin> set bad \<and> bad \<in> set (names_of q) \<and>
       fst (search env q region st) = Inl (NoRegionalIdentifier bad)"
    by (rule search_untagged)
qed

theorem disambiguation_policy_witness:
  "select_summoner_id two_abc ''abc#EUW'' None = Inr (Some ''2'') \<and>
   select_summoner_id one_abc ''abc'' None = Inr (Some ''1'') \<and>
   select_summoner_id two_abc ''abc'' None = Inl (MultipleSearchResults ''abc'') \<and>
   (\<exists>bad. CHR ''#'' \<notin> set bad \<and> bad \<in> set (names_of (Str ''abc'')) \<and>
      fst (search lonely (Str ''abc'') ''na'' fresh) = Inl (NoRegionalIdentifier bad))"
  using disambiguation_policy [of two_abc "''abc#EUW''" "''abc''" "''EUW''"
      "[candidate ''abc'' ''NA1'' ''1'']" "candidate ''abc'' ''EUW'' ''2''" "[]" None
      one_abc "''1''" "''abc''" None two_abc "''abc''" None "Str ''abc''" lonely "''na''" fresh]
  by (simp add: candidates_def two_abc_def one_abc_def page_with_def candidate_def matches_def
      strip_def py_isspace_def dict_get_def names_of_def)

text \<open>
  The claim as it was stated fails for the query \<^verbatim>\<open>abc\<close>: with one candidate it does
  not yield the candidate, and with two candidates it does not fail with the exception
  for multiple results; both times it fails for the missing regional identifier.
\<close>

theorem search_rejects_untagged_query:
  "multisearch lonely ''na'' ''abc'' = PageProps one_abc \<and>
   fst (search lonely (Str ''abc'') ''na'' fresh) = Inl (NoRegionalIdentifier ''abc'') \<and>
   multisearch world ''na'' ''abc'' = PageProps two_abc \<and>
   fst (search world (Str ''abc'') ''na'' fresh) = Inl (NoRegionalIdentifier ''abc'')"
  by (simp add: search_def names_of_def lonely_def world_def)

subsection \<open>One ambiguous name in a batch\<close>

lemma resolve_names_append:
  "resolve_names env pp (xs @ ys) acc st =
     (case resolve_names env pp xs acc st of
        (Inl e, st') \<Rightarrow> (Inl e, st')
      | (Inr acc', st') \<Rightarrow> resolve_names env pp ys acc' st')"
  by (induction xs arbitrary: acc st) (auto split: sum.splits option.splits prod.splits)

text \<open>
  C4, as amended. The exception for multiple results is not kept to the name that
  caused it: when the loop over the names has resolved the names before \<open>bad\<close>, the
  page props hold several candidates and \<open>bad\<close> has no \<^verbatim>\<open>#\<close>, the exception leaves the
  loop there, with no result for any name of the batch, whatever names follow; and
  \<^verbatim>\<open>search\<close> fails on every batch that contains such a name.
\<close>

theorem ambiguity_aborts_batch:
  assumes "1 < length (candidates pp)" and "CHR ''#'' \<notin> set bad"
    and "resolve_names env pp pre acc st = (Inr acc', st')"
  shows "resolve_names env pp (pre @ bad # post) acc st =
           (Inl (MultipleSearchResults bad), st') \<and>
         (\<exists>e. fst (search env (Lst (pre @ bad # post)) region st0) = Inl e)"
proof
  from assms(1,2) have "select_summoner_id pp bad (self_summoner_id st') =
      Inl (MultipleSearchResults bad)"
    by (simp add: select_summoner_id_def)
  with assms(3) show "resolve_names env pp (pre @ bad # post) acc st =
           (Inl (MultipleSearchResults bad), st')"
    by (simp add: resolve_names_append)
next
  from assms(2) have "list_ex (\<lambda>m. CHR ''#'' \<notin> set m) (names_of (Lst (pre @ bad # post)))"
    by (simp add: names_of_def)
  from search_untagged [OF this, of env region st0]
  show "\<exists>e. fst (search env (Lst (pre @ bad # post)) region st0) = Inl e" by blast
qed

theorem ambiguity_aborts_batch_witness:
  "1 < length (candidates two_abc) \<and> CHR ''#'' \<notin> set ''abc'' \<and>
   fst (resolve_names world two_abc [''abc#EUW''] [] fresh) =
     Inr [\<lparr>name = ''abc#EUW'', summoner_id = ''2''\<rparr>] \<and>
   fst (resolve_names world two_abc [''abc#EUW'', ''abc'', ''abc#NA1''] [] fresh) =
     Inl (MultipleSearchResults ''abc'') \<and>
   (\<exists>e. fst (search world (Lst [''abc#EUW'', ''abc'', ''abc#NA1'']) ''na'' fresh) = Inl e)"
proof -
  have 1: "1 < length (candidates two_abc)"
    by (simp add: candidates_def two_abc_def page_with_def)
  have 2: "CHR ''#'' \<notin> set ''abc''" by simp
  have 3: "fst (resolve_names world two_abc [''abc#EUW''] [] fresh) =
     Inr [\<lparr>name = ''abc#EUW'', summoner_id = ''2''\<rparr>]"
    by (simp add: search_defs world_defs Let_def)
  then have 4: "resolve_names world two_abc [''abc#EUW''] [] fresh =
     (Inr [\<lparr>name = ''abc#EUW'', summoner_id = ''2''\<rparr>],
      snd (resolve_names world two_abc [''abc#EUW''] [] fresh))"
    by (metis prod.collapse)
  show ?thesis
    using ambiguity_aborts_batch [OF 1 2 4, of "[''abc#NA1'']" "''na''" fresh] 1 3
    by simp
qed

text \<open>
  The claim as it was stated fails for the batch \<^verbatim>\<open>abc\<close>, \<^verbatim>\<open>abc#EUW\<close>: the loop ends
  with the exception at the first name and \<^verbatim>\<open>search\<close> fails, although the second name
  alone resolves.
\<close>

theorem ambiguity_ends_search:
  "fst (resolve_names world two_abc [''abc'', ''abc#EUW''] [] fresh) =
     Inl (MultipleSearchResults ''abc'') \<and>
   fst (search world (Lst [''abc'', ''abc#EUW'']) ''na'' fresh) =
     Inl (NoRegionalIdentifier ''abc'') \<and>
   fst (search world (Lst [''abc#EUW'']) ''na'' fresh) =
     Inr (One \<lparr>name = ''abc#EUW'', summoner_id = ''2''\<rparr>)"
  by (simp add: search_defs world_defs Let_def)

subsection \<open>The exception for no summoner, and a query without candidates\<close>

lemma for_each_build_champion_error:
  "for_each (build_champion env) raw = Inl e \<Longrightarrow> e = TypeError \<or> e = ValueError"
  by (cases raw) (auto simp: build_champion_raises split: list.splits if_splits)

lemma get_page_props_error:
  "get_page_props env a region st = (Inl e, st') \<Longrightarrow> e \<noteq> NoSummonersFound ns"
  by (auto simp: get_page_props_def Let_def split: page_reply.splits)

lemma load_seasons_error:
  "load_seasons env pp cached st = (Inl e, st') \<Longrightarrow> e \<noteq> NoSummonersFound ns"
  by (auto simp: load_seasons_def get_all_seasons_def seasons_of_def Let_def
      split: option.splits list.splits sum.splits prod.splits)

lemma get_all_champions_error:
  "get_all_champions env pp st = (Inl e, st') \<Longrightarrow> e \<noteq> NoSummonersFound ns"
  by (auto simp: get_all_champions_def raw_champs_data_def Let_def
      dest!: for_each_build_champion_error
      split: option.splits list.splits sum.splits prod.splits if_splits champions_reply.splits)

lemma load_champions_error:
  "load_champions env pp cached st = (Inl e, st') \<Longrightarrow> e \<noteq> NoSummonersFound ns"
  by (auto simp: load_champions_def Let_def dest!: get_all_champions_error [where ns = ns]
      split: option.splits list.splits sum.splits prod.splits)

lemma select_summoner_id_error:
  "select_summoner_id pp n cur = Inl e \<Longrightarrow> e \<noteq> NoSummonersFound ns"
  by (auto simp: select_summoner_id_def split: if_splits list.splits option.splits)

lemma get_summoner_error:
  "get_summoner env st = (Inl e, st') \<Longrightarrow> e \<noteq> NoSummonersFound ns"
  by (auto simp: get_summoner_def Let_def split: summary_reply.splits)

lemma resolve_names_error:
  "resolve_names env pp xs acc st = (Inl e, st') \<Longrightarrow> e \<noteq> NoSummonersFound ns"
proof (induction xs arbitrary: acc st)
  case Nil
  then show ?case by simp
next
  case (Cons n xs)
  then show ?case
    by (auto dest: select_summoner_id_error [where ns = ns] get_summoner_error [where ns = ns]
        split: sum.splits option.splits prod.splits)
qed

lemma resolve_cached_error:
  "resolve_cached env ids acc st = (Inl e, st') \<Longrightarrow> e \<noteq> NoSummonersFound ns"
proof (induction ids arbitrary: acc st)
  case Nil
  then show ?case by simp
next
  case (Cons cached_id ids)
  then show ?case
    by (auto dest: get_summoner_error [where ns = ns]
        split: sum.splits option.splits prod.splits)
qed

lemma search_no_summoners_found:
  assumes "fst (search env q region st) = Inl (NoSummonersFound ns)"
  shows "names_of q = []"
proof (cases rule: search_cases [of q st env region])
  case (malformed e st1)
  with assms show ?thesis by (auto dest: partition_names_fails)
next
  case (no_page st1 e st2)
  with assms show ?thesis by (auto dest: get_page_props_error [where ns = ns])
next
  case (no_seasons st1 pp st2 e st3)
  with assms show ?thesis by (auto dest: load_seasons_error [where ns = ns])
next
  case (no_champions st1 pp st2 st3 e st4)
  with assms show ?thesis by (auto dest: load_champions_error [where ns = ns])
next
  case (unresolved st1 pp st2 st3 st4 e st5)
  with assms show ?thesis by (auto dest: resolve_names_error [where ns = ns])
next
  case (cached_failed st1 pp st2 st3 st4 firsts st5 e st6)
  with assms show ?thesis by (auto dest: resolve_cached_error [where ns = ns])
next
  case (finished st1 pp st2 st3 st4 firsts st5 found st6)
  from finished(5) obtain fs where "firsts = fs" "length fs = length (names_of q)"
    by (auto dest!: resolve_names_returns [where env = env] simp: list_all2_lengthD)
  moreover from finished(6) obtain hits where "found = firsts @ hits"
    by (auto dest!: resolve_cached_returns)
  moreover from finished(7) assms have "found = []"
    by (auto simp: search_result_def split: list.splits)
  ultimately show ?thesis by simp
qed

text \<open>
  C1. The claim does not hold of \<^verbatim>\<open>search\<close>, whose exception for no summoner is out
  of reach for every batch that has a name. With no candidate for the only name of the
  batch, an object that was used for \<^verbatim>\<open>b#2\<close> before requests the summary of that
  stale identifier, returns its summoner and inserts it into the cache: no exception is
  raised and the store gains an entry.
\<close>

theorem search_without_candidates:
  "multisearch world ''na'' ''ghost#NA1'' = PageProps (page_with []) \<and>
   candidates (page_with []) = [] \<and>
   fst (search world (Lst [''ghost#NA1'']) ''na'' stale_b) =
     Inr (One \<lparr>name = ''b#2'', summoner_id = ''id-b''\<rparr>) \<and>
   summoner_ids (cache stale_b) ''b#2'' = None \<and>
   summoner_ids (cache (snd (search world (Lst [''ghost#NA1'']) ''na'' stale_b))) ''b#2'' =
     Some ''id-b'' \<and>
   new_events stale_b (snd (search world (Lst [''ghost#NA1'']) ''na'' stale_b)) =
     [GetSummonerId ''ghost#NA1'', PagePropsRequest (Lst [''ghost#NA1'']) ''na'',
      GetAllSeasons, GetAllChamps, SummaryRequest ''na'' (Some ''id-b''),
      InsertSummoner ''b#2'' ''id-b'']"
  by (simp add: search_defs world_defs new_events_def Let_def)

lemma search_without_candidates_fresh:
  "fst (search world (Lst [''ghost#NA1'']) ''na'' fresh) = Inl HTTPError"
  by (simp add: search_defs world_defs Let_def)

end
